theory Spec2Isabelle
  imports Main
begin

section \<open>Data model\<close>

text \<open>
  A Go \<^verbatim>\<open>error\<close> is modelled by its message (the dealer itself compares
  \<^verbatim>\<open>err.Error()\<close> with a constant); \<^verbatim>\<open>nil\<close> is \<open>None\<close> of
  \<open>error option\<close>, and a \<^verbatim>\<open>(value, error)\<close> pair is \<open>error + value\<close>.
\<close>

type_synonym error = string
type_synonym UID = string

definition OptimisticLockErrorMsg :: string where
  "OptimisticLockErrorMsg =
     ''the object has been modified; please apply your changes to the latest version and try again''"

text \<open>
  Modelled from the spec: the type \<^verbatim>\<open>GPU\<close>, whose declaration is not among the source
  files. A GPU has fixed totals of core units and memory and mutable committed counters.
  The counters are Go \<^verbatim>\<open>int\<close>s, taken unbounded here.
\<close>

record GPU =
  CoreTotal :: int
  MemoryTotal :: int
  CoreUsed :: int
  MemoryUsed :: int

text \<open>
  Modelled from the spec: the types \<^verbatim>\<open>Demand\<close> and \<^verbatim>\<open>Rater\<close>, whose declarations are
  not among the source files. A demand is the ordered list of the (core, memory) requests
  of the GPU-bearing containers; a rater maps a GPU and a container request to a score.
\<close>

type_synonym Request = "int \<times> int"
type_synonym Demand = "Request list"
type_synonym Rater = "GPU \<Rightarrow> Request \<Rightarrow> int"

text \<open>
  Modelled from the spec: the type \<^verbatim>\<open>Plan\<close>, whose declaration is not among the source
  files. It holds the chosen GPU indices (\<^verbatim>\<open>plan.GPUIndexes\<close> in \<^verbatim>\<open>Bind\<close>), one per
  container, with the demand they serve.
\<close>

record Plan =
  GPUIndexes :: "int list"
  PlanDemand :: Demand

text \<open>
  Modelled from the spec: the type \<^verbatim>\<open>NodeInfo\<close>, whose declaration is not among the
  source files. A node has a name (\<^verbatim>\<open>ni.Name\<close> in \<^verbatim>\<open>Bind\<close>), the ordered list of its
  GPUs (\<^verbatim>\<open>node.GPUs\<close> in \<^verbatim>\<open>PrintStatus\<close>), a reference to a rater, and the tentative plan
  recorded by the last assume.
\<close>

record NodeInfo =
  ni_Name :: string
  ni_GPUs :: "GPU list"
  ni_Rater :: Rater
  ni_Plan :: "Plan option"

text \<open>
  The fields of \<^verbatim>\<open>v1.Pod\<close> and \<^verbatim>\<open>v1.Node\<close> that the dealer and the spec refer to.
  \<open>pod_Containers\<close> gives, per container, the declared GPU-core and GPU-memory requests;
  \<open>pod_GPUIndexes\<close> is the value of the annotation that holds the chosen GPU indices.
\<close>

record Pod =
  pod_UID :: UID
  pod_Namespace :: string
  pod_Name :: string
  pod_NodeName :: string
  pod_Containers :: "(int option \<times> int option) list"
  pod_GPUIndexes :: "string option"

record Node =
  node_Name :: string
  node_GPUCount :: nat
  node_GPUMemory :: int

record Binding =
  bind_Namespace :: string
  bind_Name :: string
  bind_UID :: UID
  bind_TargetKind :: string
  bind_TargetName :: string

text \<open>
  \<^verbatim>\<open>DealerImpl\<close>. \<open>ReleasedPodMap\<close> is a \<^verbatim>\<open>map[types.UID]struct{}\<close>, that is a set.
  \<open>World\<close> is the cluster behind \<^verbatim>\<open>Client\<close>, \<^verbatim>\<open>NodeLister\<close> and \<^verbatim>\<open>PodLister\<close>: the
  dealer reads it and, in \<^verbatim>\<open>Bind\<close>, writes to it. The mutex is not modelled: every
  operation below is one critical section.
\<close>

text \<open>
  Modelled from the spec: the types \<^verbatim>\<open>GPUCoreUsage\<close> and \<^verbatim>\<open>GPUMemoryUsage\<close>, whose
  declarations are not among the source files. A time-stamped utilisation sample, kept as
  the pair (value, update time) of strings that \<^verbatim>\<open>UpdateCoreUsage\<close> receives.
\<close>

type_synonym GPUUsage = "string \<times> string"

record 'w DealerImpl =
  World :: 'w
  Rater :: Rater
  PodMaps :: "UID \<rightharpoonup> Pod"
  NodeMaps :: "string \<rightharpoonup> NodeInfo"
  CoreUsage :: "string \<rightharpoonup> (int \<rightharpoonup> GPUUsage)"
  MemoryUsage :: "string \<rightharpoonup> (int \<rightharpoonup> GPUUsage)"
  ReleasedPodMap :: "UID set"

text \<open>
  The cluster API as the dealer uses it. Reads are functions of the world; the two writes
  (\<^verbatim>\<open>Pods(ns).Update\<close> and \<^verbatim>\<open>Pods(ns).Bind\<close>) also return the next world.
  \<open>Pods_List\<close> lists the pods labelled \<^verbatim>\<open>GPUAssume=true\<close>, in all namespaces, with an
  optional field selector on the node name.
\<close>

record 'w api =
  NodeLister_Get :: "'w \<Rightarrow> string \<Rightarrow> error + Node"
  Pods_List :: "'w \<Rightarrow> string option \<Rightarrow> error + Pod list"
  Pods_Get :: "'w \<Rightarrow> string \<Rightarrow> string \<Rightarrow> error + Pod"
  Pods_Update :: "'w \<Rightarrow> Pod \<Rightarrow> error option \<times> 'w"
  Pods_Bind :: "'w \<Rightarrow> Binding \<Rightarrow> error option \<times> 'w"

text \<open>
  The functions of the package that \<^verbatim>\<open>dealer.go\<close> calls and that are defined in other
  files (the node engine, the pod helpers, the constant \<^verbatim>\<open>ScoreMin\<close>) are parameters of
  the model. A method with a \<^verbatim>\<open>*NodeInfo\<close> receiver takes the node and returns it updated;
  the dealer pointer it is given is passed as the dealer state, read only.
\<close>

record ('w, 'p) engine =
  NewDemandFromPod :: "Pod \<Rightarrow> Demand"
  NewPlanFromPod :: "Pod \<Rightarrow> error + Plan"
  GetUpdatedPodAnnotationSpec :: "Pod \<Rightarrow> int list \<Rightarrow> Pod"
  NewNodeInfo :: "string \<Rightarrow> Node \<Rightarrow> Rater \<Rightarrow> NodeInfo"
  cleanPlan :: "NodeInfo \<Rightarrow> NodeInfo"
  ni_Assume :: "NodeInfo \<Rightarrow> Demand \<Rightarrow> 'w DealerImpl \<Rightarrow> 'p \<Rightarrow> bool \<Rightarrow> (bool \<times> error option) \<times> NodeInfo"
  ni_Score :: "NodeInfo \<Rightarrow> Demand \<Rightarrow> 'w DealerImpl \<Rightarrow> 'p \<Rightarrow> bool \<Rightarrow> int \<times> NodeInfo"
  ni_Bind :: "NodeInfo \<Rightarrow> Demand \<Rightarrow> 'w DealerImpl \<Rightarrow> 'p \<Rightarrow> bool \<Rightarrow> (error + Plan) \<times> NodeInfo"
  ni_Allocate :: "NodeInfo \<Rightarrow> Plan \<Rightarrow> error option \<times> NodeInfo"
  ni_Release :: "NodeInfo \<Rightarrow> Plan \<Rightarrow> error option \<times> NodeInfo"
  ScoreMin :: int

section \<open>The dealer (dealer.go)\<close>

subsection \<open>getNodeInfo\<close>

text \<open>
  The replay loop of \<^verbatim>\<open>getNodeInfo\<close> over \<^verbatim>\<open>pods.Items\<close>: a pod whose plan cannot be
  read, or whose allocation fails, is skipped; the others enter \<open>PodMaps\<close>. The node being
  seeded is \<^verbatim>\<open>d.NodeMaps[name]\<close>, threaded here as \<open>ni\<close>. (The Go loop stores the address
  of its loop variable; only the keys of \<open>PodMaps\<close> matter below.)
\<close>

fun seed_pods :: "('w, 'p) engine \<Rightarrow> Pod list \<Rightarrow> NodeInfo \<times> (UID \<rightharpoonup> Pod) \<Rightarrow> NodeInfo \<times> (UID \<rightharpoonup> Pod)" where
  "seed_pods e [] (ni, pm) = (ni, pm)"
| "seed_pods e (pod # pods) (ni, pm) =
     (case NewPlanFromPod e pod of
        Inl err \<Rightarrow> seed_pods e pods (ni, pm)
      | Inr plan \<Rightarrow>
          (case ni_Allocate e ni plan of
             (Some err, ni') \<Rightarrow> seed_pods e pods (ni', pm)
           | (None, ni') \<Rightarrow> seed_pods e pods (ni', pm(pod_UID pod \<mapsto> pod))))"

definition getNodeInfo ::
  "'w api \<Rightarrow> ('w, 'p) engine \<Rightarrow> string \<Rightarrow> 'w DealerImpl \<Rightarrow> (error + NodeInfo) \<times> 'w DealerImpl" where
  "getNodeInfo api e name d =
     (case NodeMaps d name of
        Some ni \<Rightarrow> (Inr ni, d)
      | None \<Rightarrow>
          (case NodeLister_Get api (World d) name of
             Inl err \<Rightarrow> (Inl err, d)
           | Inr node \<Rightarrow>
               (case Pods_List api (World d) (Some name) of
                  Inl err \<Rightarrow> (Inl err, d)
                | Inr pods \<Rightarrow>
                    (case seed_pods e pods (NewNodeInfo e name node (Rater d), PodMaps d) of
                       (ni, pm) \<Rightarrow>
                         (Inr ni, d\<lparr>NodeMaps := (NodeMaps d)(name \<mapsto> ni), PodMaps := pm\<rparr>)))))"

subsection \<open>NewDealer\<close>

fun NewDealer_loop :: "'w api \<Rightarrow> ('w, 'p) engine \<Rightarrow> Pod list \<Rightarrow> 'w DealerImpl \<Rightarrow> 'w DealerImpl" where
  "NewDealer_loop api e [] d = d"
| "NewDealer_loop api e (pod # pods) d =
     (if pod_NodeName pod = [] then NewDealer_loop api e pods d
      else NewDealer_loop api e pods (snd (getNodeInfo api e (pod_NodeName pod) d)))"

definition NewDealer :: "'w api \<Rightarrow> ('w, 'p) engine \<Rightarrow> Rater \<Rightarrow> 'w \<Rightarrow> error + 'w DealerImpl" where
  "NewDealer api e rater w =
     (let di = \<lparr>World = w, Rater = rater, PodMaps = Map.empty, NodeMaps = Map.empty,
                CoreUsage = Map.empty, MemoryUsage = Map.empty, ReleasedPodMap = {}\<rparr>
      in case Pods_List api w None of
           Inl err \<Rightarrow> Inl err
         | Inr pods \<Rightarrow> Inr (NewDealer_loop api e pods di))"

subsection \<open>Assume\<close>

text \<open>
  The three parallel arrays \<^verbatim>\<open>nodeInfos\<close>, \<^verbatim>\<open>ans\<close>, \<^verbatim>\<open>res\<close> are one list of slots. A
  non-nil \<^verbatim>\<open>*NodeInfo\<close> in \<^verbatim>\<open>nodeInfos\<close> aliases the entry of \<open>NodeMaps\<close> under the name it
  was looked up with, so the slot holds that name.
\<close>

type_synonym slot = "string option \<times> bool \<times> error option"

fun Assume_resolve ::
  "'w api \<Rightarrow> ('w, 'p) engine \<Rightarrow> string list \<Rightarrow> 'w DealerImpl \<Rightarrow> slot list \<times> 'w DealerImpl" where
  "Assume_resolve api e [] d = ([], d)"
| "Assume_resolve api e (name # names) d =
     (case getNodeInfo api e name d of
        (Inl err, d1) \<Rightarrow>
          (case Assume_resolve api e names d1 of
             (slots, d2) \<Rightarrow>
               ((None, False, Some (''nano gpu scheduler get node failed: '' @ err)) # slots, d2))
      | (Inr ni, d1) \<Rightarrow>
          (case Assume_resolve api e names d1 of
             (slots, d2) \<Rightarrow> ((Some name, False, None) # slots, d2)))"

text \<open>
  The work items \<^verbatim>\<open>0 .. len(nodeInfos) - 1\<close> are queued in index order and drained by four
  goroutines while the caller waits. An item reads and writes only its own slot and its own
  node, so with distinct names every schedule gives the result of running the items one
  after the other in queue order, which is what the model does. With a name listed twice
  two items work on one \<^verbatim>\<open>NodeInfo\<close>; the model then gives the run in which the items
  follow each other in queue order, one of the runs of the Go code.
\<close>

fun Assume_work ::
  "('w, 'p) engine \<Rightarrow> Demand \<Rightarrow> 'p \<Rightarrow> bool \<Rightarrow> slot list \<Rightarrow> 'w DealerImpl \<Rightarrow>
     (bool \<times> error option) list \<times> 'w DealerImpl" where
  "Assume_work e demand pol load [] d = ([], d)"
| "Assume_work e demand pol load ((ptr, a, r) # slots) d =
     (case ptr of
        None \<Rightarrow>
          (case Assume_work e demand pol load slots d of (out, d') \<Rightarrow> ((a, r) # out, d'))
      | Some name \<Rightarrow>
          (case NodeMaps d name of
             None \<Rightarrow>
               (case Assume_work e demand pol load slots d of (out, d') \<Rightarrow> ((a, r) # out, d'))
           | Some ni \<Rightarrow>
               (let d1 = d\<lparr>NodeMaps := (NodeMaps d)(name \<mapsto> cleanPlan e ni)\<rparr>
                in case ni_Assume e (cleanPlan e ni) demand d1 pol load of
                     ((assumed, err), ni') \<Rightarrow>
                       (case Assume_work e demand pol load slots
                               (d1\<lparr>NodeMaps := (NodeMaps d1)(name \<mapsto> ni')\<rparr>) of
                          (out, d') \<Rightarrow> ((assumed, err) # out, d')))))"

definition Assume ::
  "'w api \<Rightarrow> ('w, 'p) engine \<Rightarrow> string list \<Rightarrow> Pod \<Rightarrow> 'p \<Rightarrow> bool \<Rightarrow> 'w DealerImpl \<Rightarrow>
     (bool list \<times> error option list) \<times> 'w DealerImpl" where
  "Assume api e nodes pod pol load d =
     (let demand = NewDemandFromPod e pod
      in case Assume_resolve api e nodes d of
           (slots, d1) \<Rightarrow>
             (case Assume_work e demand pol load slots d1 of
                (out, d2) \<Rightarrow> ((map fst out, map snd out), d2)))"

subsection \<open>Score\<close>

fun Score_loop ::
  "'w api \<Rightarrow> ('w, 'p) engine \<Rightarrow> Demand \<Rightarrow> 'p \<Rightarrow> bool \<Rightarrow> string list \<Rightarrow> 'w DealerImpl \<Rightarrow>
     int list \<times> 'w DealerImpl" where
  "Score_loop api e demand pol load [] d = ([], d)"
| "Score_loop api e demand pol load (name # names) d =
     (case getNodeInfo api e name d of
        (Inl err, d1) \<Rightarrow>
          (case Score_loop api e demand pol load names d1 of
             (scores, d2) \<Rightarrow> (ScoreMin e # scores, d2))
      | (Inr ni, d1) \<Rightarrow>
          (case ni_Score e ni demand d1 pol load of
             (score, ni') \<Rightarrow>
               (case Score_loop api e demand pol load names
                       (d1\<lparr>NodeMaps := (NodeMaps d1)(name \<mapsto> ni')\<rparr>) of
                  (scores, d2) \<Rightarrow> (score # scores, d2))))"

definition Score ::
  "'w api \<Rightarrow> ('w, 'p) engine \<Rightarrow> string list \<Rightarrow> Pod \<Rightarrow> 'p \<Rightarrow> bool \<Rightarrow> 'w DealerImpl \<Rightarrow>
     int list \<times> 'w DealerImpl" where
  "Score api e nodes pod pol load d = Score_loop api e (NewDemandFromPod e pod) pol load nodes d"

subsection \<open>Bind\<close>

text \<open>The tail of \<^verbatim>\<open>Bind\<close>: issue the Binding, then record the updated pod.\<close>

definition Bind_issue ::
  "'w api \<Rightarrow> string \<Rightarrow> Pod \<Rightarrow> Pod \<Rightarrow> 'w DealerImpl \<Rightarrow> error option \<times> 'w DealerImpl" where
  "Bind_issue api node pod newPod d =
     (case Pods_Bind api (World d)
             \<lparr>bind_Namespace = pod_Namespace newPod, bind_Name = pod_Name newPod,
              bind_UID = pod_UID newPod, bind_TargetKind = ''Node'', bind_TargetName = node\<rparr> of
        (Some err, w) \<Rightarrow> (Some err, d\<lparr>World := w\<rparr>)
      | (None, w) \<Rightarrow> (None, d\<lparr>World := w, PodMaps := (PodMaps d)(pod_UID pod \<mapsto> newPod)\<rparr>))"

text \<open>
  The pod update and its error handling, from \<^verbatim>\<open>newPod := ...\<close> on. In the retry branch
  \<^verbatim>\<open>pod\<close> is reassigned to the pod that was fetched again.
\<close>

definition Bind_update ::
  "'w api \<Rightarrow> ('w, 'p) engine \<Rightarrow> string \<Rightarrow> Pod \<Rightarrow> Plan \<Rightarrow> 'w DealerImpl \<Rightarrow>
     error option \<times> 'w DealerImpl" where
  "Bind_update api e node pod plan d =
     (let newPod = GetUpdatedPodAnnotationSpec e pod (GPUIndexes plan)
      in case Pods_Update api (World d) newPod of
           (None, w1) \<Rightarrow> Bind_issue api node pod newPod (d\<lparr>World := w1\<rparr>)
         | (Some err, w1) \<Rightarrow>
             if err = OptimisticLockErrorMsg then
               (case Pods_Get api w1 (pod_Namespace pod) (pod_Name pod) of
                  Inl err2 \<Rightarrow> (Some err2, d\<lparr>World := w1\<rparr>)
                | Inr pod2 \<Rightarrow>
                    (let newPod2 = GetUpdatedPodAnnotationSpec e pod2 (GPUIndexes plan)
                     in case Pods_Update api w1 newPod2 of
                          (Some err3, w2) \<Rightarrow> (Some err3, d\<lparr>World := w2\<rparr>)
                        | (None, w2) \<Rightarrow> Bind_issue api node pod2 newPod2 (d\<lparr>World := w2\<rparr>)))
             else (None, d\<lparr>World := w1\<rparr>))"

text \<open>
  The head of \<^verbatim>\<open>Bind\<close>, up to the plan: either an early return with its error, or the
  plan of \<^verbatim>\<open>ni.Bind\<close>. The node \<^verbatim>\<open>ni\<close> is the entry of \<open>NodeMaps\<close> under \<^verbatim>\<open>node\<close>.
\<close>

definition Bind_plan ::
  "'w api \<Rightarrow> ('w, 'p) engine \<Rightarrow> string \<Rightarrow> Pod \<Rightarrow> 'p \<Rightarrow> bool \<Rightarrow> 'w DealerImpl \<Rightarrow>
     (error \<times> 'w DealerImpl) + (Plan \<times> 'w DealerImpl)" where
  "Bind_plan api e node pod pol load d =
     (case getNodeInfo api e node d of
        (Inl err, d1) \<Rightarrow> Inl (err, d1)
      | (Inr ni, d1) \<Rightarrow>
          (case NodeLister_Get api (World d1) (ni_Name ni) of
             Inl err \<Rightarrow> Inl (err, d1)
           | Inr nodeInfo \<Rightarrow>
               (case ni_Bind e ni (NewDemandFromPod e pod) d1 pol load of
                  (Inl err, ni') \<Rightarrow> Inl (err, d1\<lparr>NodeMaps := (NodeMaps d1)(node \<mapsto> ni')\<rparr>)
                | (Inr plan, ni') \<Rightarrow> Inr (plan, d1\<lparr>NodeMaps := (NodeMaps d1)(node \<mapsto> ni')\<rparr>))))"

definition Bind ::
  "'w api \<Rightarrow> ('w, 'p) engine \<Rightarrow> string \<Rightarrow> Pod \<Rightarrow> 'p \<Rightarrow> bool \<Rightarrow> 'w DealerImpl \<Rightarrow>
     error option \<times> 'w DealerImpl" where
  "Bind api e node pod pol load d =
     (case Bind_plan api e node pod pol load d of
        Inl (err, d1) \<Rightarrow> (Some err, d1)
      | Inr (plan, d1) \<Rightarrow> Bind_update api e node pod plan d1)"

subsection \<open>Allocate, Release, Forget, KnownPod, PodReleased\<close>

definition Allocate ::
  "'w api \<Rightarrow> ('w, 'p) engine \<Rightarrow> Pod \<Rightarrow> 'w DealerImpl \<Rightarrow> error option \<times> 'w DealerImpl" where
  "Allocate api e pod d =
     (if pod_NodeName pod = [] then
        (Some (''pod '' @ pod_Namespace pod @ ''/'' @ pod_Name pod @ '' nodename is empty''), d)
      else
        (case getNodeInfo api e (pod_NodeName pod) d of
           (Inl err, d1) \<Rightarrow> (Some err, d1)
         | (Inr ni, d1) \<Rightarrow>
             (case PodMaps d1 (pod_UID pod) of
                Some known \<Rightarrow> (None, d1)
              | None \<Rightarrow>
                  (case NewPlanFromPod e pod of
                     Inl err \<Rightarrow> (Some err, d1)
                   | Inr plan \<Rightarrow>
                       (case ni_Allocate e ni plan of
                          (Some err, ni') \<Rightarrow>
                            (Some err, d1\<lparr>NodeMaps := (NodeMaps d1)(pod_NodeName pod \<mapsto> ni')\<rparr>)
                        | (None, ni') \<Rightarrow>
                            (None, d1\<lparr>NodeMaps := (NodeMaps d1)(pod_NodeName pod \<mapsto> ni'),
                                      PodMaps := (PodMaps d1)(pod_UID pod \<mapsto> pod)\<rparr>))))))"

definition Release ::
  "'w api \<Rightarrow> ('w, 'p) engine \<Rightarrow> Pod \<Rightarrow> 'w DealerImpl \<Rightarrow> error option \<times> 'w DealerImpl" where
  "Release api e pod d =
     (case getNodeInfo api e (pod_NodeName pod) d of
        (Inl err, d1) \<Rightarrow> (Some err, d1)
      | (Inr ni, d1) \<Rightarrow>
          (case PodMaps d1 (pod_UID pod) of
             None \<Rightarrow> (None, d1)
           | Some known \<Rightarrow>
               (case NewPlanFromPod e pod of
                  Inl err \<Rightarrow> (Some err, d1)
                | Inr plan \<Rightarrow>
                    (case ni_Release e ni plan of
                       (Some err, ni') \<Rightarrow>
                         (Some err, d1\<lparr>NodeMaps := (NodeMaps d1)(pod_NodeName pod \<mapsto> ni')\<rparr>)
                     | (None, ni') \<Rightarrow>
                         (None, d1\<lparr>NodeMaps := (NodeMaps d1)(pod_NodeName pod \<mapsto> ni'),
                                   PodMaps := (PodMaps d1)(pod_UID pod := None),
                                   ReleasedPodMap := insert (pod_UID pod) (ReleasedPodMap d1)\<rparr>)))))"

definition Forget :: "Pod \<Rightarrow> 'w DealerImpl \<Rightarrow> error option \<times> 'w DealerImpl" where
  "Forget pod d =
     (None, d\<lparr>ReleasedPodMap := ReleasedPodMap d - {pod_UID pod},
              PodMaps := (PodMaps d)(pod_UID pod := None)\<rparr>)"

definition KnownPod :: "Pod \<Rightarrow> 'w DealerImpl \<Rightarrow> bool" where
  "KnownPod pod d = (PodMaps d (pod_UID pod) \<noteq> None)"

definition PodReleased :: "Pod \<Rightarrow> 'w DealerImpl \<Rightarrow> bool" where
  "PodReleased pod d = (pod_UID pod \<in> ReleasedPodMap d)"

section \<open>The filter handler (Predicate.Handler)\<close>

record ExtenderFilterResult =
  NodeNames :: "string list"
  FailedNodes :: "string \<rightharpoonup> string"
  Error :: string

text \<open>
  The loop \<^verbatim>\<open>for i := 0; i < len(can); i++\<close> reads \<^verbatim>\<open>can[i]\<close>, \<^verbatim>\<open>nodeNames[i]\<close> and, for
  a rejected node, \<^verbatim>\<open>res[i].Error()\<close>. The three slices are walked together; an index out
  of range and the call of \<^verbatim>\<open>Error\<close> on a nil error panic, which is the result \<open>None\<close>.
  The request is taken to carry its node names (\<^verbatim>\<open>args.NodeNames\<close> is not nil).
\<close>

fun Handler_loop ::
  "bool list \<Rightarrow> string list \<Rightarrow> error option list \<Rightarrow> string list \<times> (string \<rightharpoonup> string) \<Rightarrow>
     (string list \<times> (string \<rightharpoonup> string)) option" where
  "Handler_loop [] ns rs acc = Some acc"
| "Handler_loop (c # cs) [] rs acc = None"
| "Handler_loop (True # cs) (n # ns) rs (canSchedule, canNotSchedule) =
     Handler_loop cs ns (tl rs) (canSchedule @ [n], canNotSchedule)"
| "Handler_loop (False # cs) (n # ns) [] acc = None"
| "Handler_loop (False # cs) (n # ns) (None # rs) acc = None"
| "Handler_loop (False # cs) (n # ns) (Some err # rs) (canSchedule, canNotSchedule) =
     Handler_loop cs ns rs (canSchedule, canNotSchedule(n \<mapsto> err))"

definition Handler ::
  "(Pod \<Rightarrow> string list \<Rightarrow> 'd \<Rightarrow> (bool list \<times> error option list) \<times> 'd) \<Rightarrow> Pod \<Rightarrow> string list \<Rightarrow> 'd \<Rightarrow>
     ExtenderFilterResult option \<times> 'd" where
  "Handler pFunc pod nodeNames d =
     (case pFunc pod nodeNames d of
        ((can, res), d') \<Rightarrow>
          (case Handler_loop can nodeNames res ([], Map.empty) of
             None \<Rightarrow> (None, d')
           | Some (canSchedule, canNotSchedule) \<Rightarrow>
               (Some \<lparr>NodeNames = canSchedule, FailedNodes = canNotSchedule, Error = []\<rparr>, d')))"

text \<open>The \<^verbatim>\<open>Func\<close> that \<^verbatim>\<open>NewNanoGPUPredicate\<close> installs.\<close>

definition NanoGPUFilter ::
  "'w api \<Rightarrow> ('w, 'p) engine \<Rightarrow> 'p \<Rightarrow> bool \<Rightarrow> Pod \<Rightarrow> string list \<Rightarrow> 'w DealerImpl \<Rightarrow>
     (bool list \<times> error option list) \<times> 'w DealerImpl" where
  "NanoGPUFilter api e pol load pod nodeNames d = Assume api e nodeNames pod pol load d"

section \<open>Sequences of dealer operations\<close>

datatype 'p op =
    OpAssume "string list" Pod 'p bool
  | OpScore "string list" Pod 'p bool
  | OpBind string Pod 'p bool
  | OpAllocate Pod
  | OpRelease Pod
  | OpForget Pod

fun step :: "'w api \<Rightarrow> ('w, 'p) engine \<Rightarrow> 'p op \<Rightarrow> 'w DealerImpl \<Rightarrow> 'w DealerImpl" where
  "step api e (OpAssume nodes pod pol load) d = snd (Assume api e nodes pod pol load d)"
| "step api e (OpScore nodes pod pol load) d = snd (Score api e nodes pod pol load d)"
| "step api e (OpBind node pod pol load) d = snd (Bind api e node pod pol load d)"
| "step api e (OpAllocate pod) d = snd (Allocate api e pod d)"
| "step api e (OpRelease pod) d = snd (Release api e pod d)"
| "step api e (OpForget pod) d = snd (Forget pod d)"

fun run :: "'w api \<Rightarrow> ('w, 'p) engine \<Rightarrow> 'p op list \<Rightarrow> 'w DealerImpl \<Rightarrow> 'w DealerImpl" where
  "run api e [] d = d"
| "run api e (x # xs) d = run api e xs (step api e x d)"

text \<open>
  A step re-admits a released pod when it adds to \<open>PodMaps\<close> a UID that is in
  \<open>ReleasedPodMap\<close>. The states reached from a new dealer by steps that do not, while the
  cluster changes at will between the steps:
\<close>

definition no_readmission :: "'w DealerImpl \<Rightarrow> 'w DealerImpl \<Rightarrow> bool" where
  "no_readmission d d' = ((dom (PodMaps d') - dom (PodMaps d)) \<inter> ReleasedPodMap d = {})"

inductive reachable :: "'w api \<Rightarrow> ('w, 'p) engine \<Rightarrow> 'w DealerImpl \<Rightarrow> bool"
  for api :: "'w api" and e :: "('w, 'p) engine" where
    new: "NewDealer api e rater w = Inr d \<Longrightarrow> reachable api e d"
  | op: "reachable api e d \<Longrightarrow> no_readmission d (step api e x d) \<Longrightarrow> reachable api e (step api e x d)"
  | world: "reachable api e d \<Longrightarrow> reachable api e (d\<lparr>World := w\<rparr>)"

section \<open>The node engine, from the spec\<close>

text \<open>
  The node engine (\<^verbatim>\<open>NodeInfo\<close> and its methods \<^verbatim>\<open>Assume\<close>, \<^verbatim>\<open>Score\<close>, \<^verbatim>\<open>Bind\<close>,
  \<^verbatim>\<open>Allocate\<close>, \<^verbatim>\<open>Release\<close>, \<^verbatim>\<open>cleanPlan\<close>), \<^verbatim>\<open>NewNodeInfo\<close>, \<^verbatim>\<open>NewDemandFromPod\<close>,
  \<^verbatim>\<open>NewPlanFromPod\<close>, \<^verbatim>\<open>utils.GetUpdatedPodAnnotationSpec\<close> and \<^verbatim>\<open>ScoreMin\<close> are not among
  the source files. Every definition of this section is modelled from the spec (sections
  3, 4.1 to 4.4 and 6); together they instantiate the engine parameter of the dealer.
\<close>

subsection \<open>Single-GPU fit, commit and revert (spec 4.2)\<close>

text \<open>
  Modelled from the spec: the single-GPU fit test of the missing node engine. A request
  (c, m) fits on a GPU iff total-core - committed-core \<ge> c and total-memory -
  committed-memory \<ge> m.
\<close>

fun fits :: "GPU \<Rightarrow> Request \<Rightarrow> bool" where
  "fits g (c, m) = (CoreTotal g - CoreUsed g \<ge> c \<and> MemoryTotal g - MemoryUsed g \<ge> m)"

text \<open>
  Modelled from the spec: commit of the missing node engine; it adds (c, m) to the
  committed totals of the chosen GPU.
\<close>

fun commit :: "GPU \<Rightarrow> Request \<Rightarrow> GPU" where
  "commit g (c, m) = g\<lparr>CoreUsed := CoreUsed g + c, MemoryUsed := MemoryUsed g + m\<rparr>"

text \<open>Modelled from the spec: revert of the missing node engine; it subtracts.\<close>

fun revert :: "GPU \<Rightarrow> Request \<Rightarrow> GPU" where
  "revert g (c, m) = g\<lparr>CoreUsed := CoreUsed g - c, MemoryUsed := MemoryUsed g - m\<rparr>"

text \<open>
  Modelled from the spec: commit and revert on the GPU at an index of the node's GPU
  vector (the index is the position); an index that is no position changes nothing.
\<close>

definition commit_at :: "GPU list \<Rightarrow> nat \<Rightarrow> Request \<Rightarrow> GPU list" where
  "commit_at gs i r = (if i < length gs then gs[i := commit (gs ! i) r] else gs)"

definition revert_at :: "GPU list \<Rightarrow> nat \<Rightarrow> Request \<Rightarrow> GPU list" where
  "revert_at gs i r = (if i < length gs then gs[i := revert (gs ! i) r] else gs)"

subsection \<open>Raters (spec 4.3)\<close>

text \<open>
  Modelled from the spec: the two built-in policies of the missing rater. Bin-pack prefers
  the GPU with the smaller residual after placement, spread the one with the larger
  residual; the residual is taken on the core units.
\<close>

fun Binpack :: Rater where
  "Binpack g (c, m) = CoreUsed g + c"

fun Spread :: Rater where
  "Spread g (c, m) = CoreTotal g - CoreUsed g - c"

text \<open>
  Modelled from the spec: step 1 of the tentative plan, the GPUs on which a request fits,
  with their index, in index order.
\<close>

fun candidates :: "Request \<Rightarrow> GPU list \<Rightarrow> nat \<Rightarrow> (nat \<times> GPU) list" where
  "candidates r [] i = []"
| "candidates r (g # gs) i = (if fits g r then (i, g) # candidates r gs (Suc i) else candidates r gs (Suc i))"

text \<open>
  Modelled from the spec: the rater's preference among the candidates; a tie goes to the
  lower index.
\<close>

fun preferred :: "Rater \<Rightarrow> Request \<Rightarrow> nat \<times> GPU \<Rightarrow> (nat \<times> GPU) list \<Rightarrow> nat \<times> GPU" where
  "preferred rater r (i, g) [] = (i, g)"
| "preferred rater r (i, g) ((j, h) # rest) =
     (if rater h r > rater g r then preferred rater r (j, h) rest else preferred rater r (i, g) rest)"

text \<open>Modelled from the spec: the GPU chosen for one container, if it fits anywhere.\<close>

definition chooseGPU :: "Rater \<Rightarrow> GPU list \<Rightarrow> Request \<Rightarrow> (nat \<times> GPU) option" where
  "chooseGPU rater gs r = (case candidates r gs 0 of [] \<Rightarrow> None | x # xs \<Rightarrow> Some (preferred rater r x xs))"

subsection \<open>Tentative plan (spec 4.2, 4.4)\<close>

text \<open>
  Modelled from the spec: step 2 of the tentative plan of the missing \<^verbatim>\<open>NodeInfo.Assume\<close>.
  Greedy, container by container, committing as it goes; \<open>made\<close> lists the commits made,
  the latest first. When a container fits nowhere the commits made so far are handed back
  with the reason, to be rolled back.
\<close>

fun place ::
  "Rater \<Rightarrow> Demand \<Rightarrow> GPU list \<Rightarrow> (nat \<times> Request) list \<Rightarrow>
     (error \<times> (nat \<times> Request) list \<times> GPU list) + ((nat \<times> Request) list \<times> GPU list)" where
  "place rater [] gs made = Inr (made, gs)"
| "place rater (r # rs) gs made =
     (case chooseGPU rater gs r of
        None \<Rightarrow> Inl (''gpu core/memory insufficient'', made, gs)
      | Some (i, g) \<Rightarrow> place rater rs (commit_at gs i r) ((i, r) # made))"

text \<open>
  Modelled from the spec: the rollback that the spec requires of \<^verbatim>\<open>NodeInfo.Assume\<close>; it
  reverts the tentative commits of the pod, the latest first.
\<close>

fun rollback :: "(nat \<times> Request) list \<Rightarrow> GPU list \<Rightarrow> GPU list" where
  "rollback [] gs = gs"
| "rollback ((i, r) # made) gs = rollback made (revert_at gs i r)"

text \<open>
  Modelled from the spec: the reverts of the missing \<^verbatim>\<open>NodeInfo.cleanPlan\<close>. The commits
  of a plan, one per container on the GPU of its index, are reverted, the latest first.
\<close>

definition revert_plan :: "Plan \<Rightarrow> GPU list \<Rightarrow> GPU list" where
  "revert_plan plan gs =
     rollback (rev (zip (map nat (GPUIndexes plan)) (PlanDemand plan))) gs"

text \<open>
  Modelled from the spec: the missing \<^verbatim>\<open>NodeInfo.cleanPlan\<close>; it clears the previous
  tentative plan of the node. A tentative plan is a tentative, committed placement pending
  \<^verbatim>\<open>Bind\<close> (glossary), and \<^verbatim>\<open>Assume\<close> is reentrant by clearing it first (4.4): clearing
  reverts the commits of the recorded plan and drops the record, so that assuming again
  does not add to the commits of the assume before. Without a recorded plan it does nothing.
\<close>

definition spec_cleanPlan :: "NodeInfo \<Rightarrow> NodeInfo" where
  "spec_cleanPlan ni =
     (case ni_Plan ni of
        None \<Rightarrow> ni
      | Some plan \<Rightarrow> ni\<lparr>ni_GPUs := revert_plan plan (ni_GPUs ni), ni_Plan := None\<rparr>)"

text \<open>
  Modelled from the spec: the missing \<^verbatim>\<open>NodeInfo.Assume\<close>. It runs the fit; on success
  it records the tentative plan and keeps the commits; on failure it rolls the commits of
  this pod back and returns false with the reason.
\<close>

definition spec_Assume ::
  "NodeInfo \<Rightarrow> Demand \<Rightarrow> 'w DealerImpl \<Rightarrow> 'p \<Rightarrow> bool \<Rightarrow> (bool \<times> error option) \<times> NodeInfo" where
  "spec_Assume ni demand d pol load =
     (case place (ni_Rater ni) demand (ni_GPUs ni) [] of
        Inl (reason, made, gs) \<Rightarrow> ((False, Some reason), ni\<lparr>ni_GPUs := rollback made gs\<rparr>)
      | Inr (made, gs) \<Rightarrow>
          ((True, None),
           ni\<lparr>ni_GPUs := gs,
              ni_Plan := Some \<lparr>GPUIndexes = map (\<lambda>(i, r). int i) (rev made), PlanDemand = demand\<rparr>\<rparr>))"

text \<open>Modelled from the spec: the missing constants; scores lie in 0 .. 10.\<close>

definition spec_ScoreMin :: int where
  "spec_ScoreMin = 0"

definition spec_ScoreMax :: int where
  "spec_ScoreMax = 10"

text \<open>
  Modelled from the spec: the per-node score, the sum of the per-GPU scores of the GPUs
  chosen for the containers along the greedy fit; none when the fit fails.
\<close>

fun score_all :: "Rater \<Rightarrow> Demand \<Rightarrow> GPU list \<Rightarrow> int option" where
  "score_all rater [] gs = Some 0"
| "score_all rater (r # rs) gs =
     (case chooseGPU rater gs r of
        None \<Rightarrow> None
      | Some (i, g) \<Rightarrow>
          (case score_all rater rs (commit_at gs i r) of
             None \<Rightarrow> None
           | Some s \<Rightarrow> Some (rater g r + s)))"

text \<open>
  Modelled from the spec: the missing \<^verbatim>\<open>NodeInfo.Score\<close>. It runs the fit without
  committing on the node, returns the composed score clamped to 0 .. 10, and
  \<^verbatim>\<open>ScoreMin\<close> when the fit fails.
\<close>

definition spec_Score ::
  "NodeInfo \<Rightarrow> Demand \<Rightarrow> 'w DealerImpl \<Rightarrow> 'p \<Rightarrow> bool \<Rightarrow> int \<times> NodeInfo" where
  "spec_Score ni demand d pol load =
     (case score_all (ni_Rater ni) demand (ni_GPUs ni) of
        None \<Rightarrow> (spec_ScoreMin, ni)
      | Some s \<Rightarrow> (max spec_ScoreMin (min spec_ScoreMax s), ni))"

text \<open>
  Modelled from the spec: the missing \<^verbatim>\<open>NodeInfo.Bind\<close>. It promotes the tentative plan
  to a bound plan and returns it: the commits stay and the plan is no longer tentative.
  Without a tentative plan it fails.
\<close>

definition spec_Bind ::
  "NodeInfo \<Rightarrow> Demand \<Rightarrow> 'w DealerImpl \<Rightarrow> 'p \<Rightarrow> bool \<Rightarrow> (error + Plan) \<times> NodeInfo" where
  "spec_Bind ni demand d pol load =
     (case ni_Plan ni of
        None \<Rightarrow> (Inl ''no assumed plan'', ni)
      | Some plan \<Rightarrow> (Inr plan, ni\<lparr>ni_Plan := None\<rparr>))"

subsection \<open>Allocate and Release (spec 4.4)\<close>

text \<open>
  Modelled from the spec: the commits of the missing \<^verbatim>\<open>NodeInfo.Allocate\<close>, one per
  container of an already-decided plan. Each index must be a GPU of the node and the
  committed totals must stay within the totals.
\<close>

fun allocate_all :: "(int \<times> Request) list \<Rightarrow> GPU list \<Rightarrow> GPU list option" where
  "allocate_all [] gs = Some gs"
| "allocate_all ((i, r) # rest) gs =
     (if 0 \<le> i \<and> nat i < length gs \<and> fits (gs ! nat i) r
      then allocate_all rest (commit_at gs (nat i) r) else None)"

text \<open>
  Modelled from the spec: the reverts of the missing \<^verbatim>\<open>NodeInfo.Release\<close>, one per
  container of the plan.
\<close>

fun release_all :: "(int \<times> Request) list \<Rightarrow> GPU list \<Rightarrow> GPU list option" where
  "release_all [] gs = Some gs"
| "release_all ((i, r) # rest) gs =
     (if 0 \<le> i \<and> nat i < length gs
      then release_all rest (revert_at gs (nat i) r) else None)"

text \<open>
  Modelled from the spec: the missing \<^verbatim>\<open>NodeInfo.Allocate\<close>; it commits the counters of
  the plan, or fails and leaves the node as it was.
\<close>

definition spec_Allocate :: "NodeInfo \<Rightarrow> Plan \<Rightarrow> error option \<times> NodeInfo" where
  "spec_Allocate ni plan =
     (case allocate_all (zip (GPUIndexes plan) (PlanDemand plan)) (ni_GPUs ni) of
        None \<Rightarrow> (Some ''gpu core/memory insufficient'', ni)
      | Some gs \<Rightarrow> (None, ni\<lparr>ni_GPUs := gs\<rparr>))"

text \<open>
  Modelled from the spec: the missing \<^verbatim>\<open>NodeInfo.Release\<close>; it subtracts the counters of
  the plan, or fails and leaves the node as it was.
\<close>

definition spec_Release :: "NodeInfo \<Rightarrow> Plan \<Rightarrow> error option \<times> NodeInfo" where
  "spec_Release ni plan =
     (case release_all (zip (GPUIndexes plan) (PlanDemand plan)) (ni_GPUs ni) of
        None \<Rightarrow> (Some ''no such gpu'', ni)
      | Some gs \<Rightarrow> (None, ni\<lparr>ni_GPUs := gs\<rparr>))"

subsection \<open>Demand, plan and node from the cluster objects (spec 3, 4.1, 6)\<close>

text \<open>
  Modelled from the spec: the missing \<^verbatim>\<open>NewDemandFromPod\<close>. A container is GPU-bearing
  iff it declares both a core request in 1 .. 100 and a memory request above 0; the
  demand is the ordered sequence of the requests of the GPU-bearing containers.
\<close>

fun spec_NewDemandFromPod_containers :: "(int option \<times> int option) list \<Rightarrow> Demand" where
  "spec_NewDemandFromPod_containers [] = []"
| "spec_NewDemandFromPod_containers ((Some c, Some m) # rest) =
     (if 1 \<le> c \<and> c \<le> 100 \<and> 0 < m then (c, m) # spec_NewDemandFromPod_containers rest
      else spec_NewDemandFromPod_containers rest)"
| "spec_NewDemandFromPod_containers (other # rest) = spec_NewDemandFromPod_containers rest"

definition spec_NewDemandFromPod :: "Pod \<Rightarrow> Demand" where
  "spec_NewDemandFromPod pod = spec_NewDemandFromPod_containers (pod_Containers pod)"

text \<open>
  Modelled from the spec: the format of the annotation that the missing
  \<^verbatim>\<open>NewPlanFromPod\<close> reads, a comma-separated list of decimal GPU indices.
\<close>

fun split_commas :: "string \<Rightarrow> string list" where
  "split_commas [] = [[]]"
| "split_commas (c # cs) =
     (if c = CHR '','' then [] # split_commas cs
      else (case split_commas cs of [] \<Rightarrow> [[c]] | t # ts \<Rightarrow> (c # t) # ts))"

definition digit :: "char \<Rightarrow> nat option" where
  "digit c = (if 48 \<le> (of_char c :: nat) \<and> (of_char c :: nat) \<le> 57
              then Some (of_char c - 48) else None)"

fun parse_nat :: "string \<Rightarrow> nat \<Rightarrow> nat option" where
  "parse_nat [] acc = Some acc"
| "parse_nat (c # cs) acc = (case digit c of None \<Rightarrow> None | Some v \<Rightarrow> parse_nat cs (10 * acc + v))"

definition parse_index :: "string \<Rightarrow> int option" where
  "parse_index t = (if t = [] then None else map_option int (parse_nat t 0))"

text \<open>
  Modelled from the spec: the missing \<^verbatim>\<open>NewPlanFromPod\<close>. It reads the indices from the
  annotation, one per GPU-bearing container, and fails when an index is not a number or
  the count does not match.
\<close>

definition spec_NewPlanFromPod :: "Pod \<Rightarrow> error + Plan" where
  "spec_NewPlanFromPod pod =
     (case pod_GPUIndexes pod of
        None \<Rightarrow> Inl ''malformed plan: no gpu index annotation''
      | Some s \<Rightarrow>
          (case those (map parse_index (split_commas s)) of
             None \<Rightarrow> Inl ''malformed plan: index is not a number''
           | Some idx \<Rightarrow>
               if length idx \<noteq> length (spec_NewDemandFromPod pod)
               then Inl ''malformed plan: index count mismatch''
               else Inr \<lparr>GPUIndexes = idx, PlanDemand = spec_NewDemandFromPod pod\<rparr>))"

text \<open>
  Modelled from the spec: the decimal numerals and the comma-separated list that the
  missing \<^verbatim>\<open>utils.GetUpdatedPodAnnotationSpec\<close> writes.
\<close>

function show_nat :: "nat \<Rightarrow> string" where
  "show_nat n =
     (if n < 10 then [char_of (48 + n)] else show_nat (n div 10) @ [char_of (48 + n mod 10)])"
  by pat_completeness auto
termination
  by (relation "measure id") auto

declare show_nat.simps [simp del]

fun join_commas :: "string list \<Rightarrow> string" where
  "join_commas [] = []"
| "join_commas [t] = t"
| "join_commas (t # ts) = t @ '','' @ join_commas ts"

text \<open>
  Modelled from the spec: the missing \<^verbatim>\<open>utils.GetUpdatedPodAnnotationSpec\<close>; the copy of
  the pod whose annotation holds the chosen GPU indices, in container order.
\<close>

definition spec_GetUpdatedPodAnnotationSpec :: "Pod \<Rightarrow> int list \<Rightarrow> Pod" where
  "spec_GetUpdatedPodAnnotationSpec pod idx =
     pod\<lparr>pod_GPUIndexes := Some (join_commas (map (\<lambda>i. show_nat (nat i)) idx))\<rparr>"

text \<open>
  Modelled from the spec: the missing \<^verbatim>\<open>NewNodeInfo\<close>. The capacity of the node yields
  the number of GPUs and the memory of each; a card has 100 core units; nothing is
  committed and no plan is recorded.
\<close>

definition spec_NewNodeInfo :: "string \<Rightarrow> Node \<Rightarrow> Rater \<Rightarrow> NodeInfo" where
  "spec_NewNodeInfo name node rater =
     \<lparr>ni_Name = name,
      ni_GPUs = replicate (node_GPUCount node)
                  \<lparr>CoreTotal = 100, MemoryTotal = node_GPUMemory node, CoreUsed = 0, MemoryUsed = 0\<rparr>,
      ni_Rater = rater,
      ni_Plan = None\<rparr>"

text \<open>Modelled from the spec: the missing parts together, as the engine of the dealer.\<close>

definition spec_engine :: "('w, 'p) engine" where
  "spec_engine =
     \<lparr>NewDemandFromPod = spec_NewDemandFromPod,
      NewPlanFromPod = spec_NewPlanFromPod,
      GetUpdatedPodAnnotationSpec = spec_GetUpdatedPodAnnotationSpec,
      NewNodeInfo = spec_NewNodeInfo,
      cleanPlan = spec_cleanPlan,
      ni_Assume = spec_Assume,
      ni_Score = spec_Score,
      ni_Bind = spec_Bind,
      ni_Allocate = spec_Allocate,
      ni_Release = spec_Release,
      ScoreMin = spec_ScoreMin\<rparr>"

section \<open>Scenarios\<close>

text \<open>
  A scripted cluster for the scenarios of the spec (section 8): the world is the list of
  replies still to be given to \<^verbatim>\<open>Update\<close> calls and the list of replies still to be given
  to \<^verbatim>\<open>Bind\<close> calls; a call past the end of its script succeeds. The cluster has one
  node, \<open>node-1\<close>, with two GPUs of 16384 MiB, and no pod scheduled on it.
\<close>

type_synonym script = "error option list \<times> error option list"

definition node_1 :: Node where
  "node_1 = \<lparr>node_Name = ''node-1'', node_GPUCount = 2, node_GPUMemory = 16384\<rparr>"

text \<open>The pod as the scheduler sends it to filter and bind, and as it is once bound.\<close>

definition pod_pending :: Pod where
  "pod_pending =
     \<lparr>pod_UID = ''uid-a'', pod_Namespace = ''default'', pod_Name = ''a'', pod_NodeName = [],
      pod_Containers = [(Some 30, Some 4096)], pod_GPUIndexes = None\<rparr>"

definition pod_bound :: Pod where
  "pod_bound = pod_pending\<lparr>pod_NodeName := ''node-1'', pod_GPUIndexes := Some ''0''\<rparr>"

text \<open>Scenario S4: three containers of 90 core units each, on two GPUs.\<close>

definition pod_large :: Pod where
  "pod_large =
     \<lparr>pod_UID = ''uid-b'', pod_Namespace = ''default'', pod_Name = ''b'', pod_NodeName = [],
      pod_Containers = [(Some 90, Some 1024), (Some 90, Some 1024), (Some 90, Some 1024)],
      pod_GPUIndexes = None\<rparr>"

text \<open>A pod of a node that the cluster does not know.\<close>

definition pod_stray :: Pod where
  "pod_stray = pod_bound\<lparr>pod_UID := ''uid-c'', pod_Name := ''c'', pod_NodeName := ''node-9''\<rparr>"

definition scripted_api :: "script api" where
  "scripted_api =
     \<lparr>NodeLister_Get = (\<lambda>w name. if name = ''node-1'' then Inr node_1 else Inl ''node not found''),
      Pods_List = (\<lambda>w selector. Inr []),
      Pods_Get = (\<lambda>w namespace name.
         if namespace = ''default'' \<and> name = ''a'' then Inr pod_pending else Inl ''pod not found''),
      Pods_Update = (\<lambda>w pod. case w of
           ([], bs) \<Rightarrow> (None, ([], bs))
         | (u # us, bs) \<Rightarrow> (u, (us, bs))),
      Pods_Bind = (\<lambda>w binding. case w of
           (us, []) \<Rightarrow> (None, (us, []))
         | (us, b # bs) \<Rightarrow> (b, (us, bs)))\<rparr>"

text \<open>The dealer that \<^verbatim>\<open>NewDealer\<close> returns on this cluster, with the bin-pack rater.\<close>

definition new_dealer :: "script \<Rightarrow> script DealerImpl" where
  "new_dealer w =
     \<lparr>World = w, Rater = Binpack, PodMaps = Map.empty, NodeMaps = Map.empty,
      CoreUsage = Map.empty, MemoryUsage = Map.empty, ReleasedPodMap = {}\<rparr>"

text \<open>The node \<open>node-1\<close> as seeded on first sight, and the dealer that knows it.\<close>

definition node_info_1 :: NodeInfo where
  "node_info_1 = spec_NewNodeInfo ''node-1'' node_1 Binpack"

definition seeded_dealer :: "script \<Rightarrow> script DealerImpl" where
  "seeded_dealer w = (new_dealer w)\<lparr>NodeMaps := [''node-1'' \<mapsto> node_info_1]\<rparr>"

text \<open>The engine of the scenarios is the one of the spec.\<close>

definition the_engine :: "(script, unit) engine" where
  "the_engine = spec_engine"

text \<open>
  Scenario S1: the pod of one container (30, 4096) goes to GPU 0. The dealer after the
  filter call, after \<^verbatim>\<open>ni.Bind\<close> inside \<^verbatim>\<open>Bind\<close>, and after \<^verbatim>\<open>Allocate\<close> of the bound pod.
\<close>

definition plan_a :: Plan where
  "plan_a = \<lparr>GPUIndexes = [0], PlanDemand = [(30, 4096)]\<rparr>"

definition gpu_free :: GPU where
  "gpu_free = \<lparr>CoreTotal = 100, MemoryTotal = 16384, CoreUsed = 0, MemoryUsed = 0\<rparr>"

definition gpu_a :: GPU where
  "gpu_a = \<lparr>CoreTotal = 100, MemoryTotal = 16384, CoreUsed = 30, MemoryUsed = 4096\<rparr>"

definition assumed_dealer :: "script \<Rightarrow> script DealerImpl" where
  "assumed_dealer w =
     (new_dealer w)\<lparr>NodeMaps :=
        [''node-1'' \<mapsto> node_info_1\<lparr>ni_GPUs := [gpu_a, gpu_free], ni_Plan := Some plan_a\<rparr>]\<rparr>"

definition planned_dealer :: "script \<Rightarrow> script DealerImpl" where
  "planned_dealer w =
     (new_dealer w)\<lparr>NodeMaps := [''node-1'' \<mapsto> node_info_1\<lparr>ni_GPUs := [gpu_a, gpu_free]\<rparr>]\<rparr>"

definition allocated_dealer :: "script \<Rightarrow> script DealerImpl" where
  "allocated_dealer w =
     (new_dealer w)\<lparr>NodeMaps := [''node-1'' \<mapsto> node_info_1\<lparr>ni_GPUs := [gpu_a, gpu_free]\<rparr>],
                     PodMaps := [''uid-a'' \<mapsto> pod_bound]\<rparr>"

text \<open>Scenario S1 after \<^verbatim>\<open>Bind\<close>: the annotated pod is recorded, its node name still empty.\<close>

definition bound_dealer :: "script DealerImpl" where
  "bound_dealer =
     (planned_dealer ([], []))\<lparr>PodMaps := [''uid-a'' \<mapsto> pod_pending\<lparr>pod_GPUIndexes := Some ''0''\<rparr>]\<rparr>"

section \<open>Slots of a filter call\<close>

text \<open>
  What \<open>Assume_resolve\<close> leaves in the slot of a name: the name itself, known to
  \<open>NodeMaps\<close>, with no verdict yet, or no node and the lookup error.
\<close>

definition slot_of :: "'w DealerImpl \<Rightarrow> string \<Rightarrow> slot \<Rightarrow> bool" where
  "slot_of d name s =
     ((fst s = Some name \<and> NodeMaps d name \<noteq> None \<and> snd s = (False, None))
      \<or> (fst s = None \<and> fst (snd s) = False \<and> snd (snd s) \<noteq> None))"

section \<open>Lemmas on the dealer\<close>

subsection \<open>getNodeInfo\<close>

lemma getNodeInfo_known:
  "NodeMaps d name = Some ni \<Longrightarrow> getNodeInfo api e name d = (Inr ni, d)"
  by (simp add: getNodeInfo_def)

lemma getNodeInfo_Inl:
  "getNodeInfo api e name d = (Inl err, d1) \<Longrightarrow> d1 = d \<and> NodeMaps d name = None"
  by (auto simp: getNodeInfo_def split: option.splits sum.splits prod.splits)

lemma seed_pods_dom:
  "seed_pods e pods (ni, pm) = (ni', pm') \<Longrightarrow> dom pm \<subseteq> dom pm'"
proof (induction pods arbitrary: ni pm)
  case Nil
  then show ?case by simp
next
  case (Cons pod pods)
  then show ?case
    by (fastforce split: sum.splits option.splits prod.splits)
qed

lemma getNodeInfo_Inr:
  assumes "getNodeInfo api e name d = (Inr ni, d1)"
  shows "NodeMaps d1 name = Some ni"
    and "World d1 = World d"
    and "Rater d1 = Rater d"
    and "ReleasedPodMap d1 = ReleasedPodMap d"
    and "CoreUsage d1 = CoreUsage d"
    and "MemoryUsage d1 = MemoryUsage d"
    and "n \<noteq> name \<Longrightarrow> NodeMaps d1 n = NodeMaps d n"
  using assms
  by (auto simp: getNodeInfo_def split: option.splits sum.splits prod.splits)

lemma getNodeInfo_PodMaps:
  assumes "getNodeInfo api e name d = (r, d1)"
  shows "dom (PodMaps d) \<subseteq> dom (PodMaps d1)"
proof (cases "NodeMaps d name")
  case (Some ni)
  with assms show ?thesis by (simp add: getNodeInfo_def)
next
  case None
  show ?thesis
  proof (cases "NodeLister_Get api (World d) name")
    case (Inl err)
    with None assms show ?thesis by (simp add: getNodeInfo_def)
  next
    case (Inr node)
    show ?thesis
    proof (cases "Pods_List api (World d) (Some name)")
      case (Inl err)
      with None Inr assms show ?thesis by (simp add: getNodeInfo_def)
    next
      case pods: (Inr pods)
      obtain ni pm where s: "seed_pods e pods (NewNodeInfo e name node (Rater d), PodMaps d) = (ni, pm)"
        by (cases "seed_pods e pods (NewNodeInfo e name node (Rater d), PodMaps d)")
      with None Inr pods assms have "PodMaps d1 = pm"
        by (auto simp: getNodeInfo_def)
      with seed_pods_dom [OF s] show ?thesis by simp
    qed
  qed
qed

lemma getNodeInfo_Released:
  "ReleasedPodMap (snd (getNodeInfo api e name d)) = ReleasedPodMap d"
  by (auto simp: getNodeInfo_def split: option.splits sum.splits prod.splits)


lemma getNodeInfo_World:
  "World (snd (getNodeInfo api e name d)) = World d"
  by (auto simp: getNodeInfo_def case_prod_beta split: option.splits sum.splits)


lemma getNodeInfo_keeps:
  "dom (NodeMaps d) \<subseteq> dom (NodeMaps (snd (getNodeInfo api e name d)))"
  by (auto simp: getNodeInfo_def case_prod_beta split: option.splits sum.splits)

lemma getNodeInfo_fails_again:
  assumes "isl (fst (getNodeInfo api e n d))" "World d' = World d" "NodeMaps d' n = None"
  shows "isl (fst (getNodeInfo api e n d'))"
  using assms
  by (auto simp: getNodeInfo_def split: option.splits sum.splits prod.splits)



subsection \<open>Allocate, Release and Bind\<close>

lemma Allocate_known:
  "pod_NodeName pod \<noteq> [] \<Longrightarrow> NodeMaps d (pod_NodeName pod) \<noteq> None \<Longrightarrow>
   PodMaps d (pod_UID pod) \<noteq> None \<Longrightarrow> Allocate api e pod d = (None, d)"
  by (auto simp: Allocate_def getNodeInfo_known)

lemma Allocate_success:
  assumes "Allocate api e pod d = (None, d1)"
  shows "pod_NodeName pod \<noteq> [] \<and> NodeMaps d1 (pod_NodeName pod) \<noteq> None
         \<and> PodMaps d1 (pod_UID pod) \<noteq> None"
  using assms
  by (auto simp: Allocate_def split: if_splits sum.splits option.splits prod.splits
           dest: getNodeInfo_Inr(1))

lemma Allocate_Released:
  "ReleasedPodMap (snd (Allocate api e pod d)) = ReleasedPodMap d"
proof -
  have g: "ReleasedPodMap (snd (getNodeInfo api e (pod_NodeName pod) d)) = ReleasedPodMap d"
    by (rule getNodeInfo_Released)
  show ?thesis
    using g by (cases "getNodeInfo api e (pod_NodeName pod) d")
      (auto simp: Allocate_def case_prod_beta split: sum.splits option.splits)
qed

lemma Release_Released:
  "u \<in> ReleasedPodMap (snd (Release api e pod d)) \<Longrightarrow>
     u \<in> ReleasedPodMap d \<or> PodMaps (snd (Release api e pod d)) u = None"
proof -
  assume a: "u \<in> ReleasedPodMap (snd (Release api e pod d))"
  have g: "ReleasedPodMap (snd (getNodeInfo api e (pod_NodeName pod) d)) = ReleasedPodMap d"
    by (rule getNodeInfo_Released)
  show ?thesis
    using g a by (cases "getNodeInfo api e (pod_NodeName pod) d")
      (auto simp: Release_def case_prod_beta split: sum.splits option.splits if_splits)
qed

lemma Bind_update_other_error:
  assumes "Pods_Update api (World d) (GetUpdatedPodAnnotationSpec e pod (GPUIndexes plan)) = (Some err, w1)"
    and "err \<noteq> OptimisticLockErrorMsg"
  shows "Bind_update api e node pod plan d = (None, d\<lparr>World := w1\<rparr>)"
  using assms by (simp add: Bind_update_def)

lemma Bind_Released:
  "ReleasedPodMap (snd (Bind api e node pod pol load d)) = ReleasedPodMap d"
proof -
  have g: "ReleasedPodMap (snd (getNodeInfo api e node d)) = ReleasedPodMap d"
    by (rule getNodeInfo_Released)
  have p: "ReleasedPodMap (case Bind_plan api e node pod pol load d of Inl (err, d1) \<Rightarrow> d1 | Inr (plan, d1) \<Rightarrow> d1)
             = ReleasedPodMap d"
    using g by (cases "getNodeInfo api e node d")
      (auto simp: Bind_plan_def case_prod_beta split: sum.splits)
  have i: "\<And>n p q d. ReleasedPodMap (snd (Bind_issue api n p q d)) = ReleasedPodMap d"
    by (auto simp: Bind_issue_def case_prod_beta split: option.splits)
  have u: "\<And>plan d. ReleasedPodMap (snd (Bind_update api e node pod plan d)) = ReleasedPodMap d"
    by (auto simp: Bind_update_def Let_def case_prod_beta i split: option.splits sum.splits)
  show ?thesis
    using p by (auto simp: Bind_def u split: sum.splits)
qed

subsection \<open>Score\<close>

lemma Score_loop_length:
  "length (fst (Score_loop api e demand pol load names d)) = length names"
  by (induction names arbitrary: d) (auto simp: case_prod_beta split: sum.splits)

lemma Score_loop_unresolved:
  assumes "World d = World d0"
    and "\<forall>n. isl (fst (getNodeInfo api e n d0)) \<longrightarrow> NodeMaps d n = None"
    and "i < length names"
    and "isl (fst (getNodeInfo api e (names ! i) d0))"
  shows "fst (Score_loop api e demand pol load names d) ! i = ScoreMin e"
  using assms
proof (induction names arbitrary: d i)
  case Nil
  then show ?case by simp
next
  case (Cons name names)
  obtain r d1 where g: "getNodeInfo api e name d = (r, d1)"
    by (cases "getNodeInfo api e name d")
  show ?case
  proof (cases r)
    case (Inl err)
    with g have d1: "d1 = d" by (auto dest: getNodeInfo_Inl)
    show ?thesis
    proof (cases i)
      case 0
      with g Inl show ?thesis by (simp add: case_prod_beta)
    next
      case (Suc j)
      with Cons.prems have "fst (Score_loop api e demand pol load names d) ! j = ScoreMin e"
        by (intro Cons.IH) auto
      with g Inl d1 Suc show ?thesis by (simp add: case_prod_beta)
    qed
  next
    case (Inr ni)
    have nofail: "\<not> isl (fst (getNodeInfo api e name d0))"
    proof
      assume "isl (fst (getNodeInfo api e name d0))"
      with Cons.prems(1,2) have "isl (fst (getNodeInfo api e name d))"
        by (intro getNodeInfo_fails_again [of api e name d0 d]) auto
      with g Inr show False by simp
    qed
    obtain score ni' where s: "ni_Score e ni demand d1 pol load = (score, ni')"
      by (cases "ni_Score e ni demand d1 pol load")
    let ?d2 = "d1\<lparr>NodeMaps := (NodeMaps d1)(name \<mapsto> ni')\<rparr>"
    have w: "World ?d2 = World d0"
      using g Inr Cons.prems(1) by (simp add: getNodeInfo_Inr(2))
    have inv: "\<forall>n. isl (fst (getNodeInfo api e n d0)) \<longrightarrow> NodeMaps ?d2 n = None"
    proof (intro allI impI)
      fix n assume f: "isl (fst (getNodeInfo api e n d0))"
      with nofail have "n \<noteq> name" by auto
      with g Inr have "NodeMaps d1 n = NodeMaps d n" by (simp add: getNodeInfo_Inr(7))
      with f Cons.prems(2) \<open>n \<noteq> name\<close> show "NodeMaps ?d2 n = None" by simp
    qed
    show ?thesis
    proof (cases i)
      case 0
      with Cons.prems(4) nofail show ?thesis by simp
    next
      case (Suc j)
      with Cons.prems have "fst (Score_loop api e demand pol load names ?d2) ! j = ScoreMin e"
        by (intro Cons.IH [OF w inv]) auto
      with g Inr s Suc show ?thesis by (simp add: case_prod_beta)
    qed
  qed
qed

lemma Score_loop_Released:
  "ReleasedPodMap (snd (Score_loop api e demand pol load names d)) = ReleasedPodMap d"
proof (induction names arbitrary: d)
  case Nil
  then show ?case by simp
next
  case (Cons name names)
  have g: "ReleasedPodMap (snd (getNodeInfo api e name d)) = ReleasedPodMap d"
    by (rule getNodeInfo_Released)
  show ?case
    using g by (cases "getNodeInfo api e name d") (auto simp: case_prod_beta Cons.IH split: sum.splits)
qed

subsection \<open>Assume: node resolution\<close>

lemma Assume_resolve_snd:
  "snd (Assume_resolve api e (name # names) d)
     = snd (Assume_resolve api e names (snd (getNodeInfo api e name d)))"
  by (cases "getNodeInfo api e name d") (auto simp: case_prod_beta split: sum.splits)

lemma Assume_resolve_fst:
  "fst (Assume_resolve api e (name # names) d)
     = (case fst (getNodeInfo api e name d) of
          Inl err \<Rightarrow> (None, False, Some (''nano gpu scheduler get node failed: '' @ err))
        | Inr ni \<Rightarrow> (Some name, False, None))
       # fst (Assume_resolve api e names (snd (getNodeInfo api e name d)))"
  by (cases "getNodeInfo api e name d") (auto simp: case_prod_beta split: sum.splits)


lemma Assume_resolve_World:
  "World (snd (Assume_resolve api e names d)) = World d"
  by (induction names arbitrary: d) (auto simp: Assume_resolve_snd getNodeInfo_World simp del: Assume_resolve.simps(2))

lemma Assume_resolve_keeps:
  "dom (NodeMaps d) \<subseteq> dom (NodeMaps (snd (Assume_resolve api e names d)))"
proof (induction names arbitrary: d)
  case Nil
  then show ?case by simp
next
  case (Cons name names)
  have "dom (NodeMaps d) \<subseteq> dom (NodeMaps (snd (getNodeInfo api e name d)))"
    by (rule getNodeInfo_keeps)
  also have "\<dots> \<subseteq> dom (NodeMaps (snd (Assume_resolve api e names (snd (getNodeInfo api e name d)))))"
    by (rule Cons.IH)
  finally show ?case by (simp add: Assume_resolve_snd del: Assume_resolve.simps(2))
qed

lemma Assume_resolve_Released:
  "ReleasedPodMap (snd (Assume_resolve api e names d)) = ReleasedPodMap d"
proof (induction names arbitrary: d)
  case Nil
  then show ?case by simp
next
  case (Cons name names)
  have "ReleasedPodMap (snd (Assume_resolve api e names (snd (getNodeInfo api e name d))))
          = ReleasedPodMap d"
    by (simp add: Cons.IH getNodeInfo_Released)
  then show ?case
    by (cases "getNodeInfo api e name d") (auto simp: case_prod_beta split: sum.splits)
qed

lemma slot_of_points: "slot_of d name s \<Longrightarrow> fst s = None \<or> fst s = Some name"
  by (auto simp: slot_of_def)

lemma Assume_resolve_slots:
  "list_all2 (slot_of (snd (Assume_resolve api e names d))) names (fst (Assume_resolve api e names d))"
proof (induction names arbitrary: d)
  case Nil
  then show ?case by simp
next
  case (Cons name names)
  let ?d1 = "snd (getNodeInfo api e name d)"
  let ?d2 = "snd (Assume_resolve api e names ?d1)"
  have hd: "slot_of ?d2 name
      (case fst (getNodeInfo api e name d) of
          Inl err \<Rightarrow> (None, False, Some (''nano gpu scheduler get node failed: '' @ err))
        | Inr ni \<Rightarrow> (Some name, False, None))"
  proof (cases "fst (getNodeInfo api e name d)")
    case (Inl err)
    then show ?thesis by (simp add: slot_of_def)
  next
    case (Inr ni)
    then have "getNodeInfo api e name d = (Inr ni, ?d1)" by (cases "getNodeInfo api e name d") simp
    then have "name \<in> dom (NodeMaps ?d1)" by (simp add: getNodeInfo_Inr(1) domI)
    then have "name \<in> dom (NodeMaps ?d2)" using Assume_resolve_keeps by blast
    then have "NodeMaps ?d2 name \<noteq> None" by blast
    with Inr show ?thesis by (simp add: slot_of_def)
  qed
  show ?case
    using hd Cons.IH [of ?d1] by (simp add: Assume_resolve_fst Assume_resolve_snd del: Assume_resolve.simps(2))
qed

lemma Assume_resolve_points:
  "list_all2 (\<lambda>name s. fst s = None \<or> fst s = Some name) names (fst (Assume_resolve api e names d))"
  using Assume_resolve_slots [of api e names d]
  by (rule list_all2_mono) (rule slot_of_points)

lemma Assume_resolve_length:
  "length (fst (Assume_resolve api e names d)) = length names"
  using Assume_resolve_points [of names api e d] by (rule list_all2_lengthD [symmetric])





subsection \<open>Assume: the work items\<close>

lemma Assume_work_skip:
  "Assume_work e demand pol load ((None, a, r) # slots) d
     = ((a, r) # fst (Assume_work e demand pol load slots d), snd (Assume_work e demand pol load slots d))"
  by (simp add: case_prod_beta)

lemma Assume_work_item:
  assumes "NodeMaps d name = Some ni"
  shows "Assume_work e demand pol load ((Some name, a, r) # slots) d
     = (fst (ni_Assume e (cleanPlan e ni) demand (d\<lparr>NodeMaps := (NodeMaps d)(name \<mapsto> cleanPlan e ni)\<rparr>) pol load)
          # fst (Assume_work e demand pol load slots
                  (d\<lparr>NodeMaps := (NodeMaps d)(name \<mapsto>
                       snd (ni_Assume e (cleanPlan e ni) demand (d\<lparr>NodeMaps := (NodeMaps d)(name \<mapsto> cleanPlan e ni)\<rparr>) pol load))\<rparr>)),
        snd (Assume_work e demand pol load slots
                  (d\<lparr>NodeMaps := (NodeMaps d)(name \<mapsto>
                       snd (ni_Assume e (cleanPlan e ni) demand (d\<lparr>NodeMaps := (NodeMaps d)(name \<mapsto> cleanPlan e ni)\<rparr>) pol load))\<rparr>)))"
  using assms by (simp add: case_prod_beta Let_def)

lemma Assume_work_dangling:
  assumes "NodeMaps d name = None"
  shows "Assume_work e demand pol load ((Some name, a, r) # slots) d
     = ((a, r) # fst (Assume_work e demand pol load slots d), snd (Assume_work e demand pol load slots d))"
  using assms by (simp add: case_prod_beta)

lemma Assume_work_length:
  "length (fst (Assume_work e demand pol load slots d)) = length slots"
proof (induction slots arbitrary: d)
  case Nil
  then show ?case by simp
next
  case (Cons slot slots)
  obtain ptr a r where slot: "slot = (ptr, a, r)" by (cases slot)
  show ?case
    unfolding slot
    by (auto simp: case_prod_beta Let_def Cons.IH split: option.splits)
qed

lemma Assume_work_Released:
  "ReleasedPodMap (snd (Assume_work e demand pol load slots d)) = ReleasedPodMap d"
proof (induction slots arbitrary: d)
  case Nil
  then show ?case by simp
next
  case (Cons slot slots)
  obtain ptr a r where slot: "slot = (ptr, a, r)" by (cases slot)
  show ?case
    unfolding slot
    by (auto simp: case_prod_beta Let_def Cons.IH split: option.splits)
qed

lemma Assume_work_other:
  assumes "list_all2 (\<lambda>name s. fst s = None \<or> fst s = Some name) names slots" and "n \<notin> set names"
  shows "NodeMaps (snd (Assume_work e demand pol load slots d)) n = NodeMaps d n"
  using assms
proof (induction names slots arbitrary: d rule: list_all2_induct)
  case Nil
  then show ?case by simp
next
  case (Cons name names s slots)
  obtain ptr a r where s: "s = (ptr, a, r)" by (cases s)
  from Cons.prems have ne: "n \<noteq> name" and nin: "n \<notin> set names" by auto
  show ?case
  proof (cases ptr)
    case None
    with s show ?thesis using Cons.IH [OF nin] by (simp add: Assume_work_skip del: Assume_work.simps)
  next
    case (Some p)
    with s Cons.hyps(1) have p: "p = name" by simp
    show ?thesis
    proof (cases "NodeMaps d name")
      case None
      with s Some p show ?thesis using Cons.IH [OF nin]
        by (simp add: Assume_work_dangling del: Assume_work.simps)
    next
      case (Some ni)
      with s \<open>ptr = Some p\<close> p ne show ?thesis using Cons.IH [OF nin]
        by (simp add: Assume_work_item del: Assume_work.simps)
    qed
  qed
qed

lemma Assume_work_reasons:
  assumes reports: "\<And>ni dem dd pl ld. \<not> fst (fst (ni_Assume e ni dem dd pl ld)) \<Longrightarrow>
                      snd (fst (ni_Assume e ni dem dd pl ld)) \<noteq> None"
    and "list_all2 (slot_of d0) names slots"
    and "dom (NodeMaps d0) \<subseteq> dom (NodeMaps d)"
  shows "\<forall>x \<in> set (fst (Assume_work e demand pol load slots d)). \<not> fst x \<longrightarrow> snd x \<noteq> None"
  using assms(2,3)
proof (induction names slots arbitrary: d rule: list_all2_induct)
  case Nil
  then show ?case by simp
next
  case (Cons name names s slots)
  obtain ptr a r where s: "s = (ptr, a, r)" by (cases s)
  show ?case
  proof (cases ptr)
    case None
    with s Cons.hyps(1) have "a = False" "r \<noteq> None" by (auto simp: slot_of_def)
    with None s Cons.IH [OF Cons.prems] show ?thesis
      by (simp add: Assume_work_skip del: Assume_work.simps)
  next
    case (Some p)
    with s Cons.hyps(1) have p: "p = name" and "name \<in> dom (NodeMaps d0)"
      by (auto simp: slot_of_def)
    with Cons.prems obtain ni where ni: "NodeMaps d name = Some ni" by blast
    let ?d1 = "d\<lparr>NodeMaps := (NodeMaps d)(name \<mapsto> cleanPlan e ni)\<rparr>"
    let ?res = "ni_Assume e (cleanPlan e ni) demand ?d1 pol load"
    let ?d2 = "d\<lparr>NodeMaps := (NodeMaps d)(name \<mapsto> snd ?res)\<rparr>"
    have "dom (NodeMaps d0) \<subseteq> dom (NodeMaps ?d2)"
      using Cons.prems by auto
    then have "\<forall>x \<in> set (fst (Assume_work e demand pol load slots ?d2)). \<not> fst x \<longrightarrow> snd x \<noteq> None"
      by (rule Cons.IH)
    with reports [of "cleanPlan e ni" demand ?d1 pol load] show ?thesis
      unfolding s Some p by (simp add: Assume_work_item [OF ni] del: Assume_work.simps)
  qed
qed

lemma Assume_unfold:
  "Assume api e nodes pod pol load d =
     ((map fst (fst (Assume_work e (NewDemandFromPod e pod) pol load
                  (fst (Assume_resolve api e nodes d)) (snd (Assume_resolve api e nodes d)))),
       map snd (fst (Assume_work e (NewDemandFromPod e pod) pol load
                  (fst (Assume_resolve api e nodes d)) (snd (Assume_resolve api e nodes d))))),
      snd (Assume_work e (NewDemandFromPod e pod) pol load
                  (fst (Assume_resolve api e nodes d)) (snd (Assume_resolve api e nodes d))))"
  by (simp add: Assume_def Let_def case_prod_beta)

lemma Assume_lengths:
  "length (fst (fst (Assume api e nodes pod pol load d))) = length nodes"
  "length (snd (fst (Assume api e nodes pod pol load d))) = length nodes"
  by (simp_all add: Assume_unfold Assume_work_length Assume_resolve_length)

lemma Assume_Released:
  "ReleasedPodMap (snd (Assume api e nodes pod pol load d)) = ReleasedPodMap d"
  by (simp add: Assume_def Let_def case_prod_beta Assume_work_Released Assume_resolve_Released)

lemma Assume_reasons:
  assumes "\<And>ni dem dd pl ld. \<not> fst (fst (ni_Assume e ni dem dd pl ld)) \<Longrightarrow>
                      snd (fst (ni_Assume e ni dem dd pl ld)) \<noteq> None"
    and "i < length nodes" and "\<not> fst (fst (Assume api e nodes pod pol load d)) ! i"
  shows "snd (fst (Assume api e nodes pod pol load d)) ! i \<noteq> None"
proof -
  let ?out = "fst (Assume_work e (NewDemandFromPod e pod) pol load
                  (fst (Assume_resolve api e nodes d)) (snd (Assume_resolve api e nodes d)))"
  have len: "length ?out = length nodes"
    by (simp add: Assume_work_length Assume_resolve_length)
  have "\<forall>x \<in> set ?out. \<not> fst x \<longrightarrow> snd x \<noteq> None"
    using assms(1) Assume_resolve_slots subset_refl by (rule Assume_work_reasons)
  moreover have "?out ! i \<in> set ?out" using assms(2) len by simp
  ultimately have "\<not> fst (?out ! i) \<longrightarrow> snd (?out ! i) \<noteq> None" by blast
  with assms(2,3) len show ?thesis by (simp add: Assume_unfold)
qed

subsection \<open>Operation sequences\<close>

lemma step_Released:
  "u \<in> ReleasedPodMap (step api e x d) \<Longrightarrow>
     u \<in> ReleasedPodMap d \<or> PodMaps (step api e x d) u = None"
proof (cases x)
  case (OpRelease pod)
  then show "u \<in> ReleasedPodMap (step api e x d) \<Longrightarrow> ?thesis"
    using Release_Released [of u api e pod d] by simp
qed (auto simp: Assume_Released Bind_Released Allocate_Released Score_def Score_loop_Released Forget_def)

lemma step_disjoint:
  assumes "dom (PodMaps d) \<inter> ReleasedPodMap d = {}" and "no_readmission d (step api e x d)"
  shows "dom (PodMaps (step api e x d)) \<inter> ReleasedPodMap (step api e x d) = {}"
proof (rule ccontr)
  assume "dom (PodMaps (step api e x d)) \<inter> ReleasedPodMap (step api e x d) \<noteq> {}"
  then obtain u where u: "u \<in> dom (PodMaps (step api e x d))" "u \<in> ReleasedPodMap (step api e x d)"
    by blast
  with step_Released [of u api e x d] have r: "u \<in> ReleasedPodMap d" by auto
  with assms(1) have "u \<notin> dom (PodMaps d)" by blast
  with u(1) r assms(2) show False unfolding no_readmission_def by blast
qed

lemma NewDealer_loop_Released:
  "ReleasedPodMap (NewDealer_loop api e pods d) = ReleasedPodMap d"
  by (induction pods arbitrary: d) (auto simp: getNodeInfo_Released)

lemma NewDealer_Released:
  "NewDealer api e rater w = Inr d \<Longrightarrow> ReleasedPodMap d = {}"
  by (auto simp: NewDealer_def Let_def NewDealer_loop_Released split: sum.splits)

subsection \<open>The filter handler\<close>

lemma Handler_loop_result:
  assumes "length ns = length can" and "length rs = length can"
    and "\<forall>i < length can. \<not> can ! i \<longrightarrow> rs ! i \<noteq> None"
  shows "\<exists>cn. Handler_loop can ns rs (c0, n0) = Some (c0 @ map fst (filter snd (zip ns can)), cn)
            \<and> (\<forall>x. x \<notin> set ns \<longrightarrow> cn x = n0 x)
            \<and> (distinct ns \<longrightarrow> (\<forall>i < length can. cn (ns ! i) = (if can ! i then n0 (ns ! i) else rs ! i)))"
  using assms
proof (induction can arbitrary: ns rs c0 n0)
  case Nil
  then show ?case by simp
next
  case (Cons c cs)
  from Cons.prems(1,2) obtain n ns' r rs' where ns: "ns = n # ns'" and rs: "rs = r # rs'"
    and len: "length ns' = length cs" "length rs' = length cs"
    by (cases ns; cases rs) auto
  from Cons.prems(3) have rest: "\<forall>i < length cs. \<not> cs ! i \<longrightarrow> rs' ! i \<noteq> None"
    unfolding rs by auto
  show ?case
  proof (cases c)
    case True
    from Cons.IH [OF len rest, of "c0 @ [n]" n0] obtain cn where
      l: "Handler_loop cs ns' rs' (c0 @ [n], n0) = Some ((c0 @ [n]) @ map fst (filter snd (zip ns' cs)), cn)"
      and o: "\<forall>x. x \<notin> set ns' \<longrightarrow> cn x = n0 x"
      and dd: "distinct ns' \<longrightarrow> (\<forall>i < length cs. cn (ns' ! i) = (if cs ! i then n0 (ns' ! i) else rs' ! i))"
      by blast
    have "\<forall>i < length (c # cs). distinct ns \<longrightarrow> cn (ns ! i) = (if (c # cs) ! i then n0 (ns ! i) else rs ! i)"
    proof (intro allI impI)
      fix i assume "i < length (c # cs)" "distinct ns"
      then show "cn (ns ! i) = (if (c # cs) ! i then n0 (ns ! i) else rs ! i)"
        using True o dd unfolding ns rs by (cases i) auto
    qed
    with True l o show ?thesis unfolding ns rs by auto
  next
    case False
    with Cons.prems(3) obtain err where r: "r = Some err" unfolding rs by auto
    from Cons.IH [OF len rest, of c0 "n0(n \<mapsto> err)"] obtain cn where
      l: "Handler_loop cs ns' rs' (c0, n0(n \<mapsto> err)) = Some (c0 @ map fst (filter snd (zip ns' cs)), cn)"
      and o: "\<forall>x. x \<notin> set ns' \<longrightarrow> cn x = (n0(n \<mapsto> err)) x"
      and dd: "distinct ns' \<longrightarrow> (\<forall>i < length cs. cn (ns' ! i) = (if cs ! i then (n0(n \<mapsto> err)) (ns' ! i) else rs' ! i))"
      by blast
    have "\<forall>i < length (c # cs). distinct ns \<longrightarrow> cn (ns ! i) = (if (c # cs) ! i then n0 (ns ! i) else rs ! i)"
    proof (intro allI impI)
      fix i assume i: "i < length (c # cs)" and d: "distinct ns"
      show "cn (ns ! i) = (if (c # cs) ! i then n0 (ns ! i) else rs ! i)"
      proof (cases i)
        case 0
        with False r o d show ?thesis unfolding ns rs by simp
      next
        case (Suc j)
        with i len d have "ns' ! j \<noteq> n" unfolding ns by auto
        with Suc i d dd show ?thesis unfolding ns rs by simp
      qed
    qed
    with False r l o show ?thesis unfolding ns rs by auto
  qed
qed

lemma passing_names:
  assumes "distinct ns" and "length can = length ns" and "i < length ns"
  shows "(ns ! i \<in> set (map fst (filter snd (zip ns can)))) = can ! i"
proof
  assume "ns ! i \<in> set (map fst (filter snd (zip ns can)))"
  then obtain j where j: "j < length ns" "ns ! j = ns ! i" "can ! j"
    using assms(2) by (auto simp: set_zip)
  with assms(1,3) have "j = i" by (simp add: nth_eq_iff_index_eq)
  with j show "can ! i" by simp
next
  assume "can ! i"
  with assms(2,3) have "(ns ! i, can ! i) \<in> set (filter snd (zip ns can))"
    by (auto simp: set_zip)
  then show "ns ! i \<in> set (map fst (filter snd (zip ns can)))" by force
qed

section \<open>Lemmas on the node engine of the spec\<close>

lemma revert_commit: "revert (commit g r) r = g"
  by (cases r) simp

lemma revert_at_commit_at: "revert_at (commit_at gs i r) i r = gs"
  by (simp add: revert_at_def commit_at_def revert_commit)

lemma place_rollback:
  "place rater demand gs made = Inl (reason, made', gs') \<Longrightarrow> rollback made' gs' = rollback made gs"
proof (induction demand arbitrary: gs made)
  case Nil
  then show ?case by simp
next
  case (Cons r rs)
  show ?case
  proof (cases "chooseGPU rater gs r")
    case None
    with Cons.prems show ?thesis by simp
  next
    case (Some x)
    obtain i g where x: "x = (i, g)" by (cases x)
    with Some Cons.prems have "place rater rs (commit_at gs i r) ((i, r) # made) = Inl (reason, made', gs')"
      by simp
    then have "rollback made' gs' = rollback ((i, r) # made) (commit_at gs i r)"
      by (rule Cons.IH)
    then show ?thesis by (simp add: revert_at_commit_at)
  qed
qed

lemma spec_Assume_rejects:
  assumes "spec_Assume ni demand d pol load = ((False, err), ni')"
  shows "ni_GPUs ni' = ni_GPUs ni" and "err \<noteq> None"
proof -
  from assms obtain reason made gs where
    p: "place (ni_Rater ni) demand (ni_GPUs ni) [] = Inl (reason, made, gs)"
    and ni': "ni' = ni\<lparr>ni_GPUs := rollback made gs\<rparr>" and err: "err = Some reason"
    by (auto simp: spec_Assume_def split: sum.splits)
  from place_rollback [OF p] ni' show "ni_GPUs ni' = ni_GPUs ni" by simp
  from err show "err \<noteq> None" by simp
qed

lemma spec_engine_reports:
  "\<not> fst (fst (ni_Assume spec_engine ni dem dd pl ld)) \<Longrightarrow>
     snd (fst (ni_Assume spec_engine ni dem dd pl ld)) \<noteq> None"
proof -
  assume a: "\<not> fst (fst (ni_Assume spec_engine ni dem dd pl ld))"
  then have "spec_Assume ni dem dd pl ld
      = ((False, snd (fst (spec_Assume ni dem dd pl ld))), snd (spec_Assume ni dem dd pl ld))"
    by (simp add: spec_engine_def prod_eq_iff)
  then have "snd (fst (spec_Assume ni dem dd pl ld)) \<noteq> None"
    by (rule spec_Assume_rejects(2))
  then show ?thesis by (simp add: spec_engine_def)
qed











section \<open>Facts of the scenarios\<close>

lemmas scenario_defs =
  scripted_api_def the_engine_def spec_engine_def new_dealer_def seeded_dealer_def
  assumed_dealer_def planned_dealer_def allocated_dealer_def plan_a_def gpu_free_def gpu_a_def
  node_info_1_def node_1_def pod_pending_def pod_bound_def pod_large_def pod_stray_def
  spec_NewDemandFromPod_def spec_NewNodeInfo_def spec_cleanPlan_def revert_plan_def spec_Assume_def
  spec_Bind_def spec_Allocate_def spec_Release_def spec_NewPlanFromPod_def
  spec_GetUpdatedPodAnnotationSpec_def spec_Score_def spec_ScoreMin_def spec_ScoreMax_def
  chooseGPU_def commit_at_def revert_at_def
  parse_index_def digit_def eval_nat_numeral

lemma S1_seed: "getNodeInfo scripted_api the_engine ''node-1'' (new_dealer w) = (Inr node_info_1, seeded_dealer w)"
  by (simp add: getNodeInfo_def scenario_defs)


lemma S1_Bind_plan:
  "Bind_plan scripted_api the_engine ''node-1'' pod_pending () False (assumed_dealer w)
     = Inr (plan_a, planned_dealer w)"
  by (simp add: Bind_plan_def getNodeInfo_def scenario_defs)

lemma S1_Allocate:
  "Allocate scripted_api the_engine pod_bound (new_dealer w) = (None, allocated_dealer w)"
  by (simp add: Allocate_def getNodeInfo_def scenario_defs)

lemma S1_annotated:
  "GetUpdatedPodAnnotationSpec the_engine pod_pending (GPUIndexes plan_a)
     = pod_pending\<lparr>pod_GPUIndexes := Some ''0''\<rparr>"
proof -
  have "show_nat 0 = ''0''" by code_simp
  then show ?thesis
    by (simp add: the_engine_def spec_engine_def spec_GetUpdatedPodAnnotationSpec_def plan_a_def)
qed

lemma S1_Bind:
  "Bind scripted_api the_engine ''node-1'' pod_pending () False (assumed_dealer ([], []))
     = (None, bound_dealer)"
proof -
  have "Bind scripted_api the_engine ''node-1'' pod_pending () False (assumed_dealer ([], []))
          = Bind_update scripted_api the_engine ''node-1'' pod_pending plan_a (planned_dealer ([], []))"
    by (simp add: Bind_def S1_Bind_plan)
  also have "\<dots> = Bind_issue scripted_api ''node-1'' pod_pending
                       (pod_pending\<lparr>pod_GPUIndexes := Some ''0''\<rparr>) (planned_dealer ([], []))"
    unfolding Bind_update_def Let_def S1_annotated
    by (simp add: scripted_api_def planned_dealer_def new_dealer_def)
  also have "\<dots> = (None, bound_dealer)"
    by (simp add: Bind_issue_def bound_dealer_def scripted_api_def planned_dealer_def new_dealer_def
          pod_pending_def)
  finally show ?thesis .
qed

section \<open>The claims\<close>

subsection \<open>C1: a failed pod update other than a conflict\<close>

text \<open>
  C1 (the code does not do this). The claim: when the first pod-annotation update of
  \<^verbatim>\<open>Bind\<close> fails with an error other than the optimistic-concurrency conflict message,
  \<^verbatim>\<open>Bind\<close> returns that error. On the code the \<^verbatim>\<open>else\<close> branch returns \<^verbatim>\<open>nil\<close>:
  after the filter call of scenario S1, with an API server that answers the update with
  \<open>connection refused\<close>, \<^verbatim>\<open>Bind\<close> returns nil, although the pod was neither
  annotated nor bound nor recorded in \<open>PodMaps\<close>.
\<close>

theorem Bind_swallows_update_error:
  "fst (Pods_Update scripted_api (World (planned_dealer ([Some ''connection refused''], [])))
         (GetUpdatedPodAnnotationSpec the_engine pod_pending (GPUIndexes plan_a)))
     = Some ''connection refused''
   \<and> ''connection refused'' \<noteq> OptimisticLockErrorMsg
   \<and> fst (Bind scripted_api the_engine ''node-1'' pod_pending () False
            (assumed_dealer ([Some ''connection refused''], []))) = None
   \<and> PodMaps (snd (Bind scripted_api the_engine ''node-1'' pod_pending () False
            (assumed_dealer ([Some ''connection refused''], [])))) (pod_UID pod_pending) = None"
  unfolding Bind_def S1_Bind_plan
  by (simp add: Bind_update_def OptimisticLockErrorMsg_def scenario_defs)

subsection \<open>C2: a rejected assume\<close>




subsection \<open>C3: PodMaps and ReleasedPodMap\<close>

text \<open>
  C3, counterexample. The claim: in every state reached by any sequence of dealer
  operations the keys of \<open>PodMaps\<close> and \<open>ReleasedPodMap\<close> are disjoint. From a new
  dealer, \<^verbatim>\<open>Allocate\<close>, \<^verbatim>\<open>Release\<close>, \<^verbatim>\<open>Allocate\<close> of one pod leave its UID in both:
  \<^verbatim>\<open>Allocate\<close> does not look at \<open>ReleasedPodMap\<close>.
\<close>

theorem PodMaps_ReleasedPodMap_counterexample:
  "NewDealer scripted_api the_engine Binpack ([], []) = Inr (new_dealer ([], []))
   \<and> ''uid-a'' \<in> dom (PodMaps (run scripted_api the_engine
         [OpAllocate pod_bound, OpRelease pod_bound, OpAllocate pod_bound] (new_dealer ([], []))))
   \<and> ''uid-a'' \<in> ReleasedPodMap (run scripted_api the_engine
         [OpAllocate pod_bound, OpRelease pod_bound, OpAllocate pod_bound] (new_dealer ([], [])))"
  by (simp add: NewDealer_def Allocate_def Release_def getNodeInfo_def scenario_defs)

text \<open>
  C3, amended. In every state reached from a new dealer by dealer operations that do not
  re-admit a released pod (no step adds to \<open>PodMaps\<close> a UID that is in
  \<open>ReleasedPodMap\<close>), whatever the cluster does in between, the keys of \<open>PodMaps\<close> and
  \<open>ReleasedPodMap\<close> are disjoint.
\<close>

theorem PodMaps_ReleasedPodMap_disjoint:
  "reachable api e d \<Longrightarrow> dom (PodMaps d) \<inter> ReleasedPodMap d = {}"
proof (induction rule: reachable.induct)
  case (new rater w d)
  then show ?case by (simp add: NewDealer_Released)
next
  case (op d x)
  then show ?case by (simp add: step_disjoint)
next
  case (world d w)
  then show ?case by simp
qed

text \<open>
  Witness for C3: the dealer after \<^verbatim>\<open>Allocate\<close> of the bound pod of scenario S1.
\<close>

theorem PodMaps_ReleasedPodMap_disjoint_witness:
  "reachable scripted_api the_engine (allocated_dealer ([], []))
   \<and> dom (PodMaps (allocated_dealer ([], []))) \<inter> ReleasedPodMap (allocated_dealer ([], [])) = {}"
proof -
  have "NewDealer scripted_api the_engine Binpack ([], []) = Inr (new_dealer ([], []))"
    by (simp add: NewDealer_def scenario_defs)
  then have n: "reachable scripted_api the_engine (new_dealer ([], []))"
    by (rule reachable.new)
  have s: "step scripted_api the_engine (OpAllocate pod_bound) (new_dealer ([], [])) = allocated_dealer ([], [])"
    by (simp add: S1_Allocate)
  have "no_readmission (new_dealer ([], [])) (step scripted_api the_engine (OpAllocate pod_bound) (new_dealer ([], [])))"
    unfolding s by (simp add: no_readmission_def new_dealer_def)
  with n have "reachable scripted_api the_engine (step scripted_api the_engine (OpAllocate pod_bound) (new_dealer ([], [])))"
    by (rule reachable.op)
  then have r: "reachable scripted_api the_engine (allocated_dealer ([], []))"
    unfolding s .
  from r PodMaps_ReleasedPodMap_disjoint [OF r] show ?thesis by simp
qed

subsection \<open>C4: Release of an unknown pod\<close>

text \<open>
  C4, counterexample. The claim: for every pod whose UID is not in \<open>PodMaps\<close>,
  \<^verbatim>\<open>Release\<close> returns nil. \<^verbatim>\<open>Release\<close> resolves the node of the pod first; for a pod of
  a node that the cluster does not know it returns the lookup error.
\<close>

theorem Release_absent_UID_counterexample:
  "PodMaps (new_dealer ([], [])) (pod_UID pod_stray) = None
   \<and> fst (Release scripted_api the_engine pod_stray (new_dealer ([], []))) = Some ''node not found''"
  by (simp add: Release_def getNodeInfo_def scenario_defs)

text \<open>
  C4, amended. For every pod whose node is in \<open>NodeMaps\<close> and whose UID is not in
  \<open>PodMaps\<close>, \<^verbatim>\<open>Release\<close> returns nil and leaves the whole dealer state unchanged
  (the GPU counters of every node, \<open>PodMaps\<close> and \<open>ReleasedPodMap\<close>).
\<close>

theorem Release_absent_UID:
  "NodeMaps d (pod_NodeName pod) \<noteq> None \<Longrightarrow> PodMaps d (pod_UID pod) = None \<Longrightarrow>
     Release api e pod d = (None, d)"
  by (auto simp: Release_def getNodeInfo_known)

text \<open>
  Witness for C4: the bound pod of scenario S1, released on a dealer that knows
  \<open>node-1\<close> and not the pod.
\<close>

theorem Release_absent_UID_witness:
  "NodeMaps (seeded_dealer ([], [])) (pod_NodeName pod_bound) \<noteq> None
   \<and> PodMaps (seeded_dealer ([], [])) (pod_UID pod_bound) = None
   \<and> Release scripted_api the_engine pod_bound (seeded_dealer ([], [])) = (None, seeded_dealer ([], []))"
proof -
  have n: "NodeMaps (seeded_dealer ([], [])) (pod_NodeName pod_bound) \<noteq> None"
    by (simp add: scenario_defs)
  have p: "PodMaps (seeded_dealer ([], [])) (pod_UID pod_bound) = None"
    by (simp add: scenario_defs)
  from n p Release_absent_UID [OF n p, of scripted_api the_engine] show ?thesis by simp
qed

subsection \<open>C5: Allocate of a known pod\<close>

text \<open>
  C5, counterexample. The claim: for every pod whose UID is already in \<open>PodMaps\<close>,
  \<^verbatim>\<open>Allocate\<close> returns nil. The check of the node name comes first: \<^verbatim>\<open>Bind\<close> of
  scenario S1 has put the UID of the pod in \<open>PodMaps\<close>; for the pod as it is before the
  binding shows (empty node name), \<^verbatim>\<open>Allocate\<close> returns an error.
\<close>

theorem Allocate_known_UID_counterexample:
  "Bind scripted_api the_engine ''node-1'' pod_pending () False (assumed_dealer ([], []))
     = (None, bound_dealer)
   \<and> PodMaps bound_dealer (pod_UID pod_pending) \<noteq> None
   \<and> fst (Allocate scripted_api the_engine pod_pending bound_dealer) \<noteq> None"
  by (simp add: S1_Bind) (simp add: Allocate_def bound_dealer_def pod_pending_def)

text \<open>
  C5, amended. For every pod with a non-empty node name whose node is in \<open>NodeMaps\<close>
  and whose UID is already in \<open>PodMaps\<close>, \<^verbatim>\<open>Allocate\<close> returns nil and leaves the
  dealer state unchanged; so, when \<^verbatim>\<open>Allocate(p)\<close> has returned nil, a second
  \<^verbatim>\<open>Allocate(p)\<close> returns nil and leaves the state of the first.
\<close>

theorem Allocate_idempotent:
  "(pod_NodeName pod \<noteq> [] \<and> NodeMaps d (pod_NodeName pod) \<noteq> None \<and> PodMaps d (pod_UID pod) \<noteq> None
      \<longrightarrow> Allocate api e pod d = (None, d))
   \<and> (\<forall>d1. Allocate api e pod d = (None, d1) \<longrightarrow> Allocate api e pod d1 = (None, d1))"
  using Allocate_known Allocate_success by blast

text \<open>
  Witness for C5: the bound pod of scenario S1, allocated twice on a new dealer.
\<close>

theorem Allocate_idempotent_witness:
  "pod_NodeName pod_bound \<noteq> []
   \<and> NodeMaps (allocated_dealer ([], [])) (pod_NodeName pod_bound) \<noteq> None
   \<and> PodMaps (allocated_dealer ([], [])) (pod_UID pod_bound) \<noteq> None
   \<and> Allocate scripted_api the_engine pod_bound (new_dealer ([], [])) = (None, allocated_dealer ([], []))
   \<and> Allocate scripted_api the_engine pod_bound (allocated_dealer ([], [])) = (None, allocated_dealer ([], []))"
proof -
  have a: "pod_NodeName pod_bound \<noteq> []"
    and b: "NodeMaps (allocated_dealer ([], [])) (pod_NodeName pod_bound) \<noteq> None"
    and c: "PodMaps (allocated_dealer ([], [])) (pod_UID pod_bound) \<noteq> None"
    by (simp_all add: scenario_defs)
  from a b c S1_Allocate [of "([], [])"]
    Allocate_idempotent [of pod_bound "new_dealer ([], [])" scripted_api the_engine]
  show ?thesis by simp
qed

subsection \<open>C6: Forget\<close>

text \<open>
  C6. For every pod, \<^verbatim>\<open>Forget\<close> returns nil; afterwards the UID of the pod is in neither
  \<open>PodMaps\<close> nor \<open>ReleasedPodMap\<close>; forgetting twice gives the same state as forgetting
  once.
\<close>

theorem Forget_removes_and_is_idempotent:
  "fst (Forget pod d) = None
   \<and> PodMaps (snd (Forget pod d)) (pod_UID pod) = None
   \<and> pod_UID pod \<notin> ReleasedPodMap (snd (Forget pod d))
   \<and> Forget pod (snd (Forget pod d)) = Forget pod d"
  by (simp add: Forget_def)

subsection \<open>C7: Score\<close>

text \<open>
  C7. For every list of node names, \<^verbatim>\<open>Score\<close> returns a list of the same length, and
  at every index whose node name cannot be resolved (\<^verbatim>\<open>getNodeInfo\<close> fails on it) the
  score is \<^verbatim>\<open>ScoreMin\<close>.
\<close>

theorem Score_length_and_ScoreMin:
  "length (fst (Score api e nodes pod pol load d)) = length nodes
   \<and> (\<forall>i < length nodes. isl (fst (getNodeInfo api e (nodes ! i) d))
         \<longrightarrow> fst (Score api e nodes pod pol load d) ! i = ScoreMin e)"
proof -
  have "\<forall>n. isl (fst (getNodeInfo api e n d)) \<longrightarrow> NodeMaps d n = None"
    by (auto simp: getNodeInfo_def split: option.splits)
  then show ?thesis
    unfolding Score_def by (auto simp: Score_loop_length intro: Score_loop_unresolved)
qed

text \<open>
  Witness for C7: \<open>node-9\<close> is unknown to the cluster.
\<close>

theorem Score_witness:
  "1 < length [''node-1'', ''node-9'']
   \<and> isl (fst (getNodeInfo scripted_api the_engine ([''node-1'', ''node-9''] ! 1) (new_dealer ([], []))))
   \<and> length (fst (Score scripted_api the_engine [''node-1'', ''node-9''] pod_pending () False (new_dealer ([], [])))) = 2
   \<and> fst (Score scripted_api the_engine [''node-1'', ''node-9''] pod_pending () False (new_dealer ([], []))) ! 1
       = ScoreMin the_engine"
proof -
  have h: "isl (fst (getNodeInfo scripted_api the_engine ([''node-1'', ''node-9''] ! 1) (new_dealer ([], []))))"
    by (simp add: getNodeInfo_def scenario_defs)
  show ?thesis
    using h Score_length_and_ScoreMin [of scripted_api the_engine "[''node-1'', ''node-9'']" pod_pending "()" False "new_dealer ([], [])"]
    by simp
qed

subsection \<open>C8: the result of the filter handler\<close>

text \<open>
  C8, counterexample. The claim: for every candidate list the node names of the result
  partition the list, each name appearing exactly once. With a name listed twice and
  passing twice, the name is twice in \<open>NodeNames\<close>: the handler does not remove
  duplicates.
\<close>

theorem Handler_duplicate_counterexample:
  "fst (Assume scripted_api the_engine [''node-1'', ''node-1''] pod_pending () False (new_dealer ([], [])))
     = ([True, True], [None, None])
   \<and> map_option NodeNames
        (fst (Handler (NanoGPUFilter scripted_api the_engine () False) pod_pending
                [''node-1'', ''node-1''] (new_dealer ([], []))))
       = Some [''node-1'', ''node-1'']"
  by (simp add: Handler_def NanoGPUFilter_def Assume_def getNodeInfo_def scenario_defs)

text \<open>
  C8, amended. For every filter request whose candidate list \<open>ns\<close> has no name twice,
  and a node engine that gives a reason with every rejection, the handler returns a
  result whose \<open>Error\<close> is empty, whose \<open>NodeNames\<close> are the names for which
  \<^verbatim>\<open>Assume\<close> returned true, in input order and each once, and whose \<open>FailedNodes\<close> has
  as keys only names of \<open>ns\<close>: a name that passed is no key, a name that failed is not in
  \<open>NodeNames\<close> and is mapped to the reason of its own error.
\<close>

theorem Handler_partitions_distinct_candidates:
  assumes "distinct ns"
    and "\<And>ni dem dd pl ld. \<not> fst (fst (ni_Assume e ni dem dd pl ld)) \<Longrightarrow>
                      snd (fst (ni_Assume e ni dem dd pl ld)) \<noteq> None"
  shows "\<exists>r. fst (Handler (NanoGPUFilter api e pol load) pod ns d) = Some r
            \<and> Error r = []
            \<and> NodeNames r = map fst (filter snd (zip ns (fst (fst (Assume api e ns pod pol load d)))))
            \<and> distinct (NodeNames r)
            \<and> dom (FailedNodes r) \<subseteq> set ns
            \<and> (\<forall>i < length ns.
                  if fst (fst (Assume api e ns pod pol load d)) ! i
                  then ns ! i \<in> set (NodeNames r) \<and> FailedNodes r (ns ! i) = None
                  else ns ! i \<notin> set (NodeNames r) \<and> FailedNodes r (ns ! i) \<noteq> None
                       \<and> FailedNodes r (ns ! i) = snd (fst (Assume api e ns pod pol load d)) ! i)"
proof -
  let ?can = "fst (fst (Assume api e ns pod pol load d))"
  let ?res = "snd (fst (Assume api e ns pod pol load d))"
  have len: "length ns = length ?can" "length ?res = length ?can"
    by (simp_all add: Assume_lengths)
  have reasons: "\<forall>i < length ?can. \<not> ?can ! i \<longrightarrow> ?res ! i \<noteq> None"
  proof (intro allI impI)
    fix i assume "i < length ?can" and "\<not> ?can ! i"
    then show "?res ! i \<noteq> None"
      by (intro Assume_reasons [OF assms(2)]) (simp_all add: Assume_lengths)
  qed
  from Handler_loop_result [OF len reasons, of "[]" Map.empty] assms(1) obtain cn where
    l: "Handler_loop ?can ns ?res ([], Map.empty) = Some (map fst (filter snd (zip ns ?can)), cn)"
    and o: "\<forall>x. x \<notin> set ns \<longrightarrow> cn x = None"
    and dd: "\<forall>i < length ?can. cn (ns ! i) = (if ?can ! i then None else ?res ! i)"
    by auto
  let ?r = "\<lparr>NodeNames = map fst (filter snd (zip ns ?can)), FailedNodes = cn, Error = []\<rparr>"
  have h: "fst (Handler (NanoGPUFilter api e pol load) pod ns d) = Some ?r"
    using l by (simp add: Handler_def NanoGPUFilter_def case_prod_beta)
  have dist: "distinct (NodeNames ?r)"
    using assms(1) by (simp add: distinct_map_filter map_fst_zip_take)
  have dom: "dom (FailedNodes ?r) \<subseteq> set ns"
    using o by auto
  have each: "\<forall>i < length ns.
                  if ?can ! i
                  then ns ! i \<in> set (NodeNames ?r) \<and> FailedNodes ?r (ns ! i) = None
                  else ns ! i \<notin> set (NodeNames ?r) \<and> FailedNodes ?r (ns ! i) \<noteq> None
                       \<and> FailedNodes ?r (ns ! i) = ?res ! i"
  proof (intro allI impI)
    fix i assume i: "i < length ns"
    have p: "(ns ! i \<in> set (map fst (filter snd (zip ns ?can)))) = ?can ! i"
      using assms(1) len(1) [symmetric] i by (rule passing_names)
    from i len dd have c: "cn (ns ! i) = (if ?can ! i then None else ?res ! i)" by simp
    from i len reasons have "\<not> ?can ! i \<longrightarrow> ?res ! i \<noteq> None" by simp
    with p c show "if ?can ! i
                  then ns ! i \<in> set (NodeNames ?r) \<and> FailedNodes ?r (ns ! i) = None
                  else ns ! i \<notin> set (NodeNames ?r) \<and> FailedNodes ?r (ns ! i) \<noteq> None
                       \<and> FailedNodes ?r (ns ! i) = ?res ! i"
      by simp
  qed
  show ?thesis
    using h dist dom each by (intro exI [of _ ?r]) simp
qed

text \<open>
  Witness for C8: the pod of scenario S1 on \<open>node-1\<close>, which passes, and on the
  unknown \<open>node-9\<close>, which fails with the lookup error.
\<close>

theorem Handler_partitions_witness:
  "distinct [''node-1'', ''node-9'']
   \<and> map_option NodeNames
        (fst (Handler (NanoGPUFilter scripted_api the_engine () False) pod_pending
                [''node-1'', ''node-9''] (new_dealer ([], [])))) = Some [''node-1'']
   \<and> map_option (\<lambda>r. FailedNodes r ''node-9'')
        (fst (Handler (NanoGPUFilter scripted_api the_engine () False) pod_pending
                [''node-1'', ''node-9''] (new_dealer ([], []))))
       = Some (Some ''nano gpu scheduler get node failed: node not found'')
   \<and> map_option Error
        (fst (Handler (NanoGPUFilter scripted_api the_engine () False) pod_pending
                [''node-1'', ''node-9''] (new_dealer ([], [])))) = Some []"
proof -
  have d: "distinct [''node-1'', ''node-9'']" by simp
  have a: "fst (Assume scripted_api the_engine [''node-1'', ''node-9''] pod_pending () False (new_dealer ([], [])))
             = ([True, False], [None, Some ''nano gpu scheduler get node failed: node not found''])"
    by (simp add: Assume_def getNodeInfo_def scenario_defs)
  from Handler_partitions_distinct_candidates [OF d, of the_engine scripted_api "()" False pod_pending "new_dealer ([], [])"]
    spec_engine_reports
  obtain r where r: "fst (Handler (NanoGPUFilter scripted_api the_engine () False) pod_pending
                [''node-1'', ''node-9''] (new_dealer ([], []))) = Some r"
    and "Error r = []"
    and "NodeNames r = map fst (filter snd (zip [''node-1'', ''node-9'']
            (fst (fst (Assume scripted_api the_engine [''node-1'', ''node-9''] pod_pending () False (new_dealer ([], [])))))))"
    and "\<forall>i < length [''node-1'', ''node-9''].
                  if fst (fst (Assume scripted_api the_engine [''node-1'', ''node-9''] pod_pending () False (new_dealer ([], [])))) ! i
                  then [''node-1'', ''node-9''] ! i \<in> set (NodeNames r) \<and> FailedNodes r ([''node-1'', ''node-9''] ! i) = None
                  else [''node-1'', ''node-9''] ! i \<notin> set (NodeNames r) \<and> FailedNodes r ([''node-1'', ''node-9''] ! i) \<noteq> None
                       \<and> FailedNodes r ([''node-1'', ''node-9''] ! i)
                          = snd (fst (Assume scripted_api the_engine [''node-1'', ''node-9''] pod_pending () False (new_dealer ([], [])))) ! i"
    unfolding the_engine_def by blast
  from this(4) [rule_format, of 1] this(2,3) r d show ?thesis
    by (simp add: a)
qed

subsection \<open>C9: the retry of Bind on a conflict\<close>

text \<open>
  C9, counterexample. The claim: when the retried update succeeds, \<^verbatim>\<open>Bind\<close> issues the
  Binding and succeeds. The Binding call can fail, and then \<^verbatim>\<open>Bind\<close> returns its error:
  here the first update meets a conflict, the second succeeds, the Binding is rejected.
\<close>

theorem Bind_conflict_counterexample:
  "fst (Pods_Update scripted_api ([Some OptimisticLockErrorMsg], [Some ''binding rejected''])
         (GetUpdatedPodAnnotationSpec the_engine pod_pending (GPUIndexes plan_a)))
     = Some OptimisticLockErrorMsg
   \<and> fst (Pods_Update scripted_api ([], [Some ''binding rejected''])
         (GetUpdatedPodAnnotationSpec the_engine pod_pending (GPUIndexes plan_a))) = None
   \<and> fst (Bind scripted_api the_engine ''node-1'' pod_pending () False
            (assumed_dealer ([Some OptimisticLockErrorMsg], [Some ''binding rejected''])))
       = Some ''binding rejected''"
  unfolding Bind_def S1_Bind_plan
  by (simp add: Bind_update_def Bind_issue_def OptimisticLockErrorMsg_def scenario_defs)

text \<open>
  C9, amended. When the pod-annotation update of \<^verbatim>\<open>Bind\<close> fails with the
  optimistic-concurrency conflict message, \<^verbatim>\<open>Bind\<close> fetches the pod again. If that fails
  it returns the error of the fetch, having called \<^verbatim>\<open>Update\<close> once. Otherwise it
  retries the update, once: if the retry fails, its error is returned, also when it is
  the conflict message again, and the world is the one after two \<^verbatim>\<open>Update\<close> calls; if
  the retry succeeds, \<^verbatim>\<open>Bind\<close> issues the Binding and returns what the Binding call
  returns, recording the updated pod in \<open>PodMaps\<close> under the UID of the fetched pod when
  that is nil.
\<close>

theorem Bind_conflict_retries_once:
  assumes "Bind_plan api e node pod pol load d = Inr (plan, d1)"
    and "Pods_Update api (World d1) (GetUpdatedPodAnnotationSpec e pod (GPUIndexes plan))
           = (Some OptimisticLockErrorMsg, w1)"
  shows "(\<forall>err. Pods_Get api w1 (pod_Namespace pod) (pod_Name pod) = Inl err \<longrightarrow>
            Bind api e node pod pol load d = (Some err, d1\<lparr>World := w1\<rparr>))
       \<and> (\<forall>pod2 err w2. Pods_Get api w1 (pod_Namespace pod) (pod_Name pod) = Inr pod2
              \<and> Pods_Update api w1 (GetUpdatedPodAnnotationSpec e pod2 (GPUIndexes plan)) = (Some err, w2) \<longrightarrow>
            Bind api e node pod pol load d = (Some err, d1\<lparr>World := w2\<rparr>))
       \<and> (\<forall>pod2 w2 b w3. Pods_Get api w1 (pod_Namespace pod) (pod_Name pod) = Inr pod2
              \<and> Pods_Update api w1 (GetUpdatedPodAnnotationSpec e pod2 (GPUIndexes plan)) = (None, w2)
              \<and> Pods_Bind api w2
                   \<lparr>bind_Namespace = pod_Namespace (GetUpdatedPodAnnotationSpec e pod2 (GPUIndexes plan)),
                    bind_Name = pod_Name (GetUpdatedPodAnnotationSpec e pod2 (GPUIndexes plan)),
                    bind_UID = pod_UID (GetUpdatedPodAnnotationSpec e pod2 (GPUIndexes plan)),
                    bind_TargetKind = ''Node'', bind_TargetName = node\<rparr> = (b, w3) \<longrightarrow>
            fst (Bind api e node pod pol load d) = b
            \<and> World (snd (Bind api e node pod pol load d)) = w3
            \<and> (b = None \<longrightarrow> PodMaps (snd (Bind api e node pod pol load d)) (pod_UID pod2)
                  = Some (GetUpdatedPodAnnotationSpec e pod2 (GPUIndexes plan))))"
  using assms
  by (auto simp: Bind_def Bind_update_def Bind_issue_def Let_def split: option.splits)

text \<open>
  Witness for C9, scenario S6: the API answers the first update with the conflict message
  and accepts everything after it; \<^verbatim>\<open>Bind\<close> succeeds and the recorded pod carries the
  plan.
\<close>

theorem Bind_conflict_witness:
  "Bind_plan scripted_api the_engine ''node-1'' pod_pending () False
       (assumed_dealer ([Some OptimisticLockErrorMsg], []))
     = Inr (plan_a, planned_dealer ([Some OptimisticLockErrorMsg], []))
   \<and> Pods_Update scripted_api (World (planned_dealer ([Some OptimisticLockErrorMsg], [])))
         (GetUpdatedPodAnnotationSpec the_engine pod_pending (GPUIndexes plan_a))
       = (Some OptimisticLockErrorMsg, ([], []))
   \<and> fst (Bind scripted_api the_engine ''node-1'' pod_pending () False
            (assumed_dealer ([Some OptimisticLockErrorMsg], []))) = None
   \<and> World (snd (Bind scripted_api the_engine ''node-1'' pod_pending () False
            (assumed_dealer ([Some OptimisticLockErrorMsg], [])))) = ([], [])
   \<and> PodMaps (snd (Bind scripted_api the_engine ''node-1'' pod_pending () False
            (assumed_dealer ([Some OptimisticLockErrorMsg], [])))) ''uid-a''
       = Some (pod_pending\<lparr>pod_GPUIndexes := Some ''0''\<rparr>)"
proof -
  let ?w = "([Some OptimisticLockErrorMsg], []) :: script"
  have u: "Pods_Update scripted_api (World (planned_dealer ?w))
         (GetUpdatedPodAnnotationSpec the_engine pod_pending (GPUIndexes plan_a))
       = (Some OptimisticLockErrorMsg, ([], []))"
    by (simp add: scripted_api_def planned_dealer_def new_dealer_def)
  have g: "Pods_Get scripted_api ([], []) (pod_Namespace pod_pending) (pod_Name pod_pending) = Inr pod_pending"
    by (simp add: scripted_api_def pod_pending_def)
  have u2: "Pods_Update scripted_api ([], [])
         (GetUpdatedPodAnnotationSpec the_engine pod_pending (GPUIndexes plan_a)) = (None, ([], []))"
    by (simp add: scripted_api_def)
  have b: "Pods_Bind scripted_api ([], [])
                   \<lparr>bind_Namespace = pod_Namespace (GetUpdatedPodAnnotationSpec the_engine pod_pending (GPUIndexes plan_a)),
                    bind_Name = pod_Name (GetUpdatedPodAnnotationSpec the_engine pod_pending (GPUIndexes plan_a)),
                    bind_UID = pod_UID (GetUpdatedPodAnnotationSpec the_engine pod_pending (GPUIndexes plan_a)),
                    bind_TargetKind = ''Node'', bind_TargetName = ''node-1''\<rparr> = (None, ([], []))"
    by (simp add: scripted_api_def)
  note p = S1_annotated
  have uid: "pod_UID pod_pending = ''uid-a''" by (simp add: pod_pending_def)
  from Bind_conflict_retries_once [OF S1_Bind_plan u] g u2 b
  have "fst (Bind scripted_api the_engine ''node-1'' pod_pending () False (assumed_dealer ?w)) = None
      \<and> World (snd (Bind scripted_api the_engine ''node-1'' pod_pending () False (assumed_dealer ?w))) = ([], [])
      \<and> PodMaps (snd (Bind scripted_api the_engine ''node-1'' pod_pending () False (assumed_dealer ?w))) (pod_UID pod_pending)
          = Some (GetUpdatedPodAnnotationSpec the_engine pod_pending (GPUIndexes plan_a))"
    by blast
  with S1_Bind_plan [of ?w] u p uid show ?thesis by simp
qed

subsection \<open>C10: Allocate of a pod without node name\<close>

text \<open>
  C10. For every pod whose \<^verbatim>\<open>Spec.NodeName\<close> is empty, \<^verbatim>\<open>Allocate\<close> returns a non-nil
  error and leaves the whole dealer state unchanged.
\<close>

theorem Allocate_empty_NodeName:
  "pod_NodeName pod = [] \<Longrightarrow>
     fst (Allocate api e pod d) \<noteq> None \<and> snd (Allocate api e pod d) = d"
  by (simp add: Allocate_def)

text \<open>
  Witness for C10: the pod of scenario S1 before it is bound.
\<close>

theorem Allocate_empty_NodeName_witness:
  "pod_NodeName pod_pending = []
   \<and> fst (Allocate scripted_api the_engine pod_pending (new_dealer ([], []))) \<noteq> None
   \<and> snd (Allocate scripted_api the_engine pod_pending (new_dealer ([], []))) = new_dealer ([], [])"
  using Allocate_empty_NodeName [of pod_pending scripted_api the_engine "new_dealer ([], [])"]
  by (simp add: pod_pending_def)

end
